theory Spec2Isabelle
  imports Complex_Main "HOL-Library.Word" "HOL-Library.Option_ord"
begin

section \<open>Brain tumour classification dashboard: data model\<close>

text \<open>
  The program is a single Python module, \<^verbatim>\<open>website.py\<close>. Its own code is the image
  preprocessing (\<^verbatim>\<open>preprocess_image\<close>), the inference function
  (\<^verbatim>\<open>predict_image_class\<close>) and the upload handler wrapped in one
  \<^verbatim>\<open>try/except\<close>. Everything else is a call into OpenCV, NumPy, TensorFlow or
  scikit-learn.

  Arrays are nested lists, outermost axis first: an image of shape \<open>(H, W, C)\<close> is a list of
  \<open>H\<close> rows of \<open>W\<close> pixels of \<open>C\<close> channel values. \<^verbatim>\<open>np.uint8\<close> is \<open>8 word\<close>.
  \<^verbatim>\<open>np.float32\<close> values are idealised as real numbers: rounding, infinities and NaN are
  not modelled, and the one place where NumPy would produce a non-finite value (a division
  by a zero scalar) is an explicit outcome of the model. The preprocessing is given a
  second time with the float type and its operations left open, for what must hold
  whatever the rounding.
\<close>

type_synonym uint8 = "8 word"
type_synonym 'a plane = "'a list list"
type_synonym 'a ndarray3 = "'a list list list"

datatype exn =
    Cv2Error string
  | ValueError string
  | IndexError string
  | KeyError string
  | ModelError string
  | NonFinite

text \<open>\<^verbatim>\<open>str(e)\<close>. Python prints a \<^verbatim>\<open>KeyError\<close> as the \<^verbatim>\<open>repr\<close> of the key.\<close>

fun str :: "exn \<Rightarrow> string" where
  "str (Cv2Error m) = m"
| "str (ValueError m) = m"
| "str (IndexError m) = m"
| "str (KeyError k) = CHR 0x27 # k @ [CHR 0x27]"
| "str (ModelError m) = m"
| "str NonFinite = ''non-finite value''"

definition IMG_SIZE :: "nat \<times> nat" where
  "IMG_SIZE = (224, 224)"

definition CLASS_NAMES :: "string list" where
  "CLASS_NAMES = [''Glioma'', ''Meningioma'', ''No Tumor'', ''Pituitary'']"

subsection \<open>The OpenCV calls the module makes\<close>

text \<open>
  \<^verbatim>\<open>cv2.resize\<close>, \<^verbatim>\<open>cv2.imdecode\<close> and \<^verbatim>\<open>CLAHE.apply\<close> are library code; they are
  parameters of the model. Each may raise. \<^verbatim>\<open>cv2.imdecode\<close> returns \<^verbatim>\<open>None\<close> for bytes
  it cannot decode.
\<close>

record clahe =
  clipLimit :: real
  tileGridSize :: "nat \<times> nat"

record cv2 =
  resize :: "uint8 ndarray3 \<Rightarrow> nat \<times> nat \<Rightarrow> exn + uint8 ndarray3"
  clahe_apply :: "clahe \<Rightarrow> uint8 plane \<Rightarrow> exn + uint8 plane"
  imdecode :: "uint8 list \<Rightarrow> exn + uint8 ndarray3 option"

definition createCLAHE :: "real \<Rightarrow> nat \<times> nat \<Rightarrow> clahe" where
  "createCLAHE c g = \<lparr>clipLimit = c, tileGridSize = g\<rparr>"

subsection \<open>The NumPy operations the module uses\<close>

definition flat :: "'a ndarray3 \<Rightarrow> 'a list" where
  "flat a = concat (concat a)"

definition map3 :: "('a \<Rightarrow> 'b) \<Rightarrow> 'a ndarray3 \<Rightarrow> 'b ndarray3" where
  "map3 f a = map (map (map f)) a"

definition has_shape :: "nat \<Rightarrow> nat \<Rightarrow> nat \<Rightarrow> 'a ndarray3 \<Rightarrow> bool" where
  "has_shape h w c a =
     (length a = h \<and> list_all (\<lambda>row. length row = w \<and> list_all (\<lambda>px. length px = c) row) a)"

definition plane_shape :: "nat \<Rightarrow> nat \<Rightarrow> 'a plane \<Rightarrow> bool" where
  "plane_shape h w p = (length p = h \<and> list_all (\<lambda>row. length row = w) p)"

definition astype_float32 :: "uint8 ndarray3 \<Rightarrow> real ndarray3" where
  "astype_float32 a = map3 (\<lambda>v. real (unat v)) a"

text \<open>
  \<^verbatim>\<open>astype(np.uint8)\<close> truncates towards zero and keeps the low 8 bits.
\<close>

definition trunc :: "real \<Rightarrow> int" where
  "trunc x = (if 0 \<le> x then \<lfloor>x\<rfloor> else \<lceil>x\<rceil>)"

definition astype_uint8 :: "real ndarray3 \<Rightarrow> uint8 ndarray3" where
  "astype_uint8 a = map3 (\<lambda>x. word_of_int (trunc x)) a"

definition np_mean :: "real ndarray3 \<Rightarrow> real" where
  "np_mean a = sum_list (flat a) / real (length (flat a))"

text \<open>\<^verbatim>\<open>np.std\<close> is the population standard deviation over all elements.\<close>

definition np_std :: "real ndarray3 \<Rightarrow> real" where
  "np_std a = sqrt (np_mean (map3 (\<lambda>x. (x - np_mean a)\<^sup>2) a))"

text \<open>\<^verbatim>\<open>np.min\<close> and \<^verbatim>\<open>np.ptp\<close> raise \<^verbatim>\<open>ValueError\<close> on an array with no element.\<close>

definition np_min :: "real ndarray3 \<Rightarrow> exn + real" where
  "np_min a =
     (if flat a = [] then Inl (ValueError ''zero-size array to reduction operation'')
      else Inr (Min (set (flat a))))"

definition np_ptp :: "real ndarray3 \<Rightarrow> exn + real" where
  "np_ptp a =
     (if flat a = [] then Inl (ValueError ''zero-size array to reduction operation'')
      else Inr (Max (set (flat a)) - Min (set (flat a))))"

definition np_subtract :: "real ndarray3 \<Rightarrow> real \<Rightarrow> real ndarray3" where
  "np_subtract a s = map3 (\<lambda>x. x - s) a"

definition np_multiply :: "real ndarray3 \<Rightarrow> real \<Rightarrow> real ndarray3" where
  "np_multiply a s = map3 (\<lambda>x. x * s) a"

text \<open>
  Dividing an array by a zero scalar does not raise in NumPy: it fills the array with
  infinities and NaN. Those are outside the real numbers, so the model returns
  \<open>NonFinite\<close> there instead of HOL's \<open>x / 0 = 0\<close>.
\<close>

definition np_divide :: "real ndarray3 \<Rightarrow> real \<Rightarrow> exn + real ndarray3" where
  "np_divide a s = (if s = 0 then Inl NonFinite else Inr (map3 (\<lambda>x. x / s) a))"

definition zeros_like :: "uint8 ndarray3 \<Rightarrow> uint8 ndarray3" where
  "zeros_like a = map3 (\<lambda>_. 0) a"

text \<open>\<^verbatim>\<open>a[..., i]\<close>: the plane of channel \<open>i\<close>.\<close>

definition get_channel :: "'a ndarray3 \<Rightarrow> nat \<Rightarrow> exn + 'a plane" where
  "get_channel a i =
     (if list_all (list_all (\<lambda>px. i < length px)) a
      then Inr (map (map (\<lambda>px. px ! i)) a)
      else Inl (IndexError ''index is out of bounds''))"

text \<open>
  \<^verbatim>\<open>a[..., i] = ch\<close>: writes the plane \<open>ch\<close> into channel \<open>i\<close>. A plane of another shape
  is a \<^verbatim>\<open>ValueError\<close> (planes that NumPy could broadcast are not told apart: the
  equalizer returns a plane of the shape it was given).
\<close>

definition set_channel :: "'a ndarray3 \<Rightarrow> nat \<Rightarrow> 'a plane \<Rightarrow> exn + 'a ndarray3" where
  "set_channel a i ch =
     (if \<not> list_all (list_all (\<lambda>px. i < length px)) a
      then Inl (IndexError ''index is out of bounds'')
      else if map length ch = map length a
      then Inr (map2 (\<lambda>row chrow. map2 (\<lambda>px v. px[i := v]) row chrow) a ch)
      else Inl (ValueError ''could not broadcast input array''))"

section \<open>Image preprocessing\<close>

text \<open>
  The loop \<^verbatim>\<open>for i in range(3): img_clahe[..., i] = clahe.apply(img[..., i])\<close>, as a
  recursion over the channel indices still to do.
\<close>

fun clahe_loop ::
  "cv2 \<Rightarrow> clahe \<Rightarrow> uint8 ndarray3 \<Rightarrow> nat list \<Rightarrow> uint8 ndarray3 \<Rightarrow> exn + uint8 ndarray3"
where
  "clahe_loop cv cl img [] img_clahe = Inr img_clahe"
| "clahe_loop cv cl img (i # rest) img_clahe =
     (case get_channel img i of
        Inl e \<Rightarrow> Inl e
      | Inr ch \<Rightarrow>
          (case clahe_apply cv cl ch of
             Inl e \<Rightarrow> Inl e
           | Inr out \<Rightarrow>
               (case set_channel img_clahe i out of
                  Inl e \<Rightarrow> Inl e
                | Inr acc \<Rightarrow> clahe_loop cv cl img rest acc)))"

definition preprocess_image :: "cv2 \<Rightarrow> uint8 ndarray3 \<Rightarrow> exn + real ndarray3" where
  "preprocess_image cv image_in =
     (case resize cv image_in IMG_SIZE of
        Inl e \<Rightarrow> Inl e
      | Inr img_resized \<Rightarrow>
          let img0 = astype_float32 img_resized in
          (case np_divide (np_subtract img0 (np_mean img0)) (np_std img0 + 0.00000001) of
             Inl e \<Rightarrow> Inl e
           | Inr img1 \<Rightarrow>
               (case np_min img1 of
                  Inl e \<Rightarrow> Inl e
                | Inr lo \<Rightarrow>
                    (case np_ptp img1 of
                       Inl e \<Rightarrow> Inl e
                     | Inr ptp \<Rightarrow>
                         (case np_divide (np_subtract img1 lo) (ptp + 0.00000001) of
                            Inl e \<Rightarrow> Inl e
                          | Inr img2 \<Rightarrow>
                              let img = astype_uint8 (np_multiply img2 255);
                                  cl = createCLAHE 0.02 (8, 8);
                                  img_clahe = zeros_like img
                              in (case clahe_loop cv cl img [0..<3] img_clahe of
                                    Inl e \<Rightarrow> Inl e
                                  | Inr img_clahe \<Rightarrow>
                                      np_divide (astype_float32 img_clahe) 255))))))"

subsection \<open>The same function over any float32 arithmetic\<close>

text \<open>
  Over the reals the added \<open>1e-8\<close> always changes a divisor; in \<^verbatim>\<open>np.float32\<close> it is
  lost whenever the other operand is large enough, and the results of \<^verbatim>\<open>np.mean\<close> and
  \<^verbatim>\<open>np.std\<close> depend on NumPy's order of summation. \<open>preprocess_image_f32\<close> is the
  same source function with the float type and its operations left open: the casts, the
  constants, the four arithmetic operations and the four reductions over all elements are
  the fields of \<open>float32_ops\<close>. A division by zero is a value of the float type here,
  as in NumPy, and not a failure. \<open>exact_reals\<close> is the instance that
  \<open>preprocess_image\<close> uses.
\<close>

record 'f float32_ops =
  f32_of_uint8 :: "uint8 \<Rightarrow> 'f"
  f32_to_uint8 :: "'f \<Rightarrow> uint8"
  f32_const :: "real \<Rightarrow> 'f"
  f32_add :: "'f \<Rightarrow> 'f \<Rightarrow> 'f"
  f32_sub :: "'f \<Rightarrow> 'f \<Rightarrow> 'f"
  f32_mul :: "'f \<Rightarrow> 'f \<Rightarrow> 'f"
  f32_div :: "'f \<Rightarrow> 'f \<Rightarrow> 'f"
  f32_mean :: "'f list \<Rightarrow> 'f"
  f32_std :: "'f list \<Rightarrow> 'f"
  f32_min :: "'f list \<Rightarrow> 'f"
  f32_ptp :: "'f list \<Rightarrow> 'f"

definition preprocess_image_f32 ::
  "'f float32_ops \<Rightarrow> cv2 \<Rightarrow> uint8 ndarray3 \<Rightarrow> exn + 'f ndarray3"
where
  "preprocess_image_f32 np cv image_in =
     (case resize cv image_in IMG_SIZE of
        Inl e \<Rightarrow> Inl e
      | Inr img_resized \<Rightarrow>
          let img0 = map3 (f32_of_uint8 np) img_resized;
              mean = f32_mean np (flat img0);
              std_eps = f32_add np (f32_std np (flat img0)) (f32_const np 0.00000001);
              img1 = map3 (\<lambda>x. f32_div np x std_eps) (map3 (\<lambda>x. f32_sub np x mean) img0)
          in if flat img1 = []
             then Inl (ValueError ''zero-size array to reduction operation'')
             else
               let lo = f32_min np (flat img1);
                   ptp_eps = f32_add np (f32_ptp np (flat img1)) (f32_const np 0.00000001);
                   img2 = map3 (\<lambda>x. f32_div np x ptp_eps) (map3 (\<lambda>x. f32_sub np x lo) img1);
                   img = map3 (f32_to_uint8 np) (map3 (\<lambda>x. f32_mul np x (f32_const np 255)) img2);
                   cl = createCLAHE 0.02 (8, 8);
                   img_clahe = zeros_like img
               in (case clahe_loop cv cl img [0..<3] img_clahe of
                     Inl e \<Rightarrow> Inl e
                   | Inr img_clahe \<Rightarrow>
                       Inr (map3 (\<lambda>x. f32_div np x (f32_const np 255))
                              (map3 (f32_of_uint8 np) img_clahe))))"

definition exact_reals :: "real float32_ops" where
  "exact_reals =
     \<lparr>f32_of_uint8 = (\<lambda>v. real (unat v)), f32_to_uint8 = (\<lambda>x. word_of_int (trunc x)),
      f32_const = (\<lambda>c. c), f32_add = (+), f32_sub = (-), f32_mul = (*), f32_div = (/),
      f32_mean = (\<lambda>xs. sum_list xs / real (length xs)),
      f32_std = (\<lambda>xs. sqrt (sum_list (map (\<lambda>x. (x - sum_list xs / real (length xs))\<^sup>2) xs)
                           / real (length xs))),
      f32_min = (\<lambda>xs. Min (set xs)), f32_ptp = (\<lambda>xs. Max (set xs) - Min (set xs))\<rparr>"

section \<open>Inference\<close>

text \<open>
  A Python \<^verbatim>\<open>dict\<close> keeps its keys in insertion order; storing under a key that is
  present replaces the value where the key stands. \<^verbatim>\<open>dict(pairs)\<close> stores the pairs
  from left to right.
\<close>

type_synonym ('k, 'v) dict = "('k \<times> 'v) list"

fun dict_setitem :: "('k, 'v) dict \<Rightarrow> 'k \<Rightarrow> 'v \<Rightarrow> ('k, 'v) dict" where
  "dict_setitem [] k v = [(k, v)]"
| "dict_setitem ((k', v') # d) k v =
     (if k' = k then (k, v) # d else (k', v') # dict_setitem d k v)"

definition dict :: "('k \<times> 'v) list \<Rightarrow> ('k, 'v) dict" where
  "dict pairs = foldl (\<lambda>d (k, v). dict_setitem d k v) [] pairs"

definition keys :: "('k, 'v) dict \<Rightarrow> 'k list" where
  "keys d = map fst d"

definition dict_get :: "('k, 'v) dict \<Rightarrow> 'k \<Rightarrow> 'v option" where
  "dict_get d k = map_of d k"

definition dict_getitem :: "(string, 'v) dict \<Rightarrow> string \<Rightarrow> exn + 'v" where
  "dict_getitem d k = (case map_of d k of None \<Rightarrow> Inl (KeyError k) | Some v \<Rightarrow> Inr v)"

text \<open>
  The three fitted models are arguments of \<^verbatim>\<open>predict_image_class\<close>. Each call may
  raise. The function returns, next to its result, the model calls it made, in order.
\<close>

datatype model_call = FeatureExtractorPredict | FeatureSelectorTransform | ClassifierPredictProba

definition expand_dims :: "'a \<Rightarrow> 'a list" where
  "expand_dims a = [a]"

definition predict_image_class ::
  "cv2 \<Rightarrow> uint8 ndarray3 \<Rightarrow> (real ndarray3 list \<Rightarrow> exn + 'e) \<Rightarrow> ('e \<Rightarrow> exn + 's) \<Rightarrow>
   ('s \<Rightarrow> exn + real list list) \<Rightarrow> model_call list \<times> (exn + (string, real) dict)"
where
  "predict_image_class cv img feature_extractor feature_selector classifier =
     (case preprocess_image cv img of
        Inl e \<Rightarrow> ([], Inl e)
      | Inr img_processed \<Rightarrow>
          (case feature_extractor (expand_dims img_processed) of
             Inl e \<Rightarrow> ([FeatureExtractorPredict], Inl e)
           | Inr features \<Rightarrow>
               (case feature_selector features of
                  Inl e \<Rightarrow> ([FeatureExtractorPredict, FeatureSelectorTransform], Inl e)
                | Inr selected_features \<Rightarrow>
                    (case classifier selected_features of
                       Inl e \<Rightarrow>
                         ([FeatureExtractorPredict, FeatureSelectorTransform,
                           ClassifierPredictProba], Inl e)
                     | Inr probs \<Rightarrow>
                         ([FeatureExtractorPredict, FeatureSelectorTransform,
                           ClassifierPredictProba],
                          (case probs of
                             [] \<Rightarrow> Inl (IndexError ''index 0 is out of bounds'')
                           | prediction_probs # _ \<Rightarrow>
                               Inr (dict (zip CLASS_NAMES prediction_probs))))))))"

section \<open>The upload handler\<close>

text \<open>
  \<^verbatim>\<open>max(iterable, key=f)\<close> keeps the first item whose key is maximal (a later item
  replaces the current one only when its key is strictly greater) and raises
  \<^verbatim>\<open>ValueError\<close> on an empty iterable.
\<close>

definition py_max :: "('a \<Rightarrow> 'b::linorder) \<Rightarrow> 'a list \<Rightarrow> exn + 'a" where
  "py_max key xs =
     (case xs of
        [] \<Rightarrow> Inl (ValueError ''max() arg is an empty sequence'')
      | x # rest \<Rightarrow> Inr (foldl (\<lambda>best y. if key best < key y then y else best) x rest))"

text \<open>
  \<^verbatim>\<open>cv2.cvtColor(img, cv2.COLOR_BGR2RGB)\<close> raises on \<^verbatim>\<open>None\<close>, on an image with no
  pixel and on a pixel that has neither 3 nor 4 channels; otherwise each pixel
  \<open>[b, g, r]\<close> or \<open>[b, g, r, a]\<close> becomes \<open>[r, g, b]\<close>.
\<close>

definition cvtColor_BGR2RGB :: "uint8 ndarray3 option \<Rightarrow> exn + uint8 ndarray3" where
  "cvtColor_BGR2RGB src =
     (case src of
        None \<Rightarrow> Inl (Cv2Error ''(-215:Assertion failed) !_src.empty() in function cvtColor'')
      | Some img \<Rightarrow>
          if flat img = []
          then Inl (Cv2Error ''(-215:Assertion failed) !_src.empty() in function cvtColor'')
          else if list_all (list_all (\<lambda>px. length px \<in> {3, 4})) img
          then Inr (map (map (\<lambda>px. rev (take 3 px))) img)
          else Inl (Cv2Error ''Invalid number of channels in input image''))"

text \<open>
  What the page shows, in the order of the \<^verbatim>\<open>st.*\<close> calls. The headings, the chart
  and the diagnosis box keep the data they are built from; their styling is left out.
\<close>

datatype ui_event =
    Markdown string
  | Image "uint8 ndarray3" nat
  | Pyplot "real list" "string list"
  | Diagnosis string real
  | Error string

text \<open>\<^verbatim>\<open>[predictions[cls] for cls in CLASS_NAMES]\<close>\<close>

fun getitems :: "(string, 'v) dict \<Rightarrow> string list \<Rightarrow> exn + 'v list" where
  "getitems d [] = Inr []"
| "getitems d (c # cs) =
     (case dict_getitem d c of
        Inl e \<Rightarrow> Inl e
      | Inr v \<Rightarrow> (case getitems d cs of Inl e \<Rightarrow> Inl e | Inr vs \<Rightarrow> Inr (v # vs)))"

text \<open>
  The body of the \<^verbatim>\<open>try\<close>: what was rendered, the model calls made, and whether the
  body ended normally or by an exception.
\<close>

definition try_body ::
  "cv2 \<Rightarrow> (real ndarray3 list \<Rightarrow> exn + 'e) \<Rightarrow> ('e \<Rightarrow> exn + 's) \<Rightarrow>
   ('s \<Rightarrow> exn + real list list) \<Rightarrow> uint8 list \<Rightarrow>
   ui_event list \<times> model_call list \<times> (exn + unit)"
where
  "try_body cv feature_extractor feature_selector mlp_loaded file_bytes =
     (case imdecode cv file_bytes of
        Inl e \<Rightarrow> ([], [], Inl e)
      | Inr img \<Rightarrow>
          (case cvtColor_BGR2RGB img of
             Inl e \<Rightarrow> ([], [], Inl e)
           | Inr img_rgb \<Rightarrow>
               (case predict_image_class cv img_rgb feature_extractor feature_selector mlp_loaded of
                  (calls, Inl e) \<Rightarrow> ([], calls, Inl e)
                | (calls, Inr predictions) \<Rightarrow>
                    (case py_max (dict_get predictions) (keys predictions) of
                       Inl e \<Rightarrow> ([], calls, Inl e)
                     | Inr predicted_class \<Rightarrow>
                         let shown = [Markdown ''MRI Scan Preview'', Image img_rgb 230,
                                      Markdown ''Classification Confidence'']
                         in (case getitems predictions CLASS_NAMES of
                               Inl e \<Rightarrow> (shown, calls, Inl e)
                             | Inr values \<Rightarrow>
                                 let shown = shown @ [Pyplot values CLASS_NAMES]
                                 in (case dict_getitem predictions predicted_class of
                                       Inl e \<Rightarrow> (shown, calls, Inl e)
                                     | Inr p \<Rightarrow>
                                         (shown @ [Diagnosis predicted_class (p * 100)],
                                          calls, Inr ())))))))"

text \<open>
  \<^verbatim>\<open>if uploaded_file is not None: try: ... except Exception as e: st.error(...)\<close>
\<close>

definition handler ::
  "cv2 \<Rightarrow> (real ndarray3 list \<Rightarrow> exn + 'e) \<Rightarrow> ('e \<Rightarrow> exn + 's) \<Rightarrow>
   ('s \<Rightarrow> exn + real list list) \<Rightarrow> uint8 list option \<Rightarrow> ui_event list \<times> model_call list"
where
  "handler cv feature_extractor feature_selector mlp_loaded uploaded_file =
     (case uploaded_file of
        None \<Rightarrow> ([], [])
      | Some file_bytes \<Rightarrow>
          (case try_body cv feature_extractor feature_selector mlp_loaded file_bytes of
             (shown, calls, Inl e) \<Rightarrow>
               (shown @ [Error (''Error processing image: '' @ str e)], calls)
           | (shown, calls, Inr _) \<Rightarrow> (shown, calls)))"

text \<open>Events that report an error, and events that show a classification result.\<close>

fun is_error :: "ui_event \<Rightarrow> bool" where
  "is_error (Error msg) = True"
| "is_error _ = False"

fun is_result :: "ui_event \<Rightarrow> bool" where
  "is_result (Pyplot values labels) = True"
| "is_result (Diagnosis cls percent) = True"
| "is_result _ = False"

text \<open>
  A failure before anything is rendered: in the decoder, in the colour conversion, in the
  preprocessing, in one of the three model calls, or because the classifier returned no
  row or an empty row. The last argument lists the model calls made up to the failure.
\<close>

inductive stage_fails ::
  "cv2 \<Rightarrow> (real ndarray3 list \<Rightarrow> exn + 'e) \<Rightarrow> ('e \<Rightarrow> exn + 's) \<Rightarrow>
   ('s \<Rightarrow> exn + real list list) \<Rightarrow> uint8 list \<Rightarrow> exn \<Rightarrow> model_call list \<Rightarrow> bool"
  for cv feature_extractor feature_selector classifier file_bytes
where
  decode_fails: "imdecode cv file_bytes = Inl e \<Longrightarrow>
     stage_fails cv feature_extractor feature_selector classifier file_bytes e []"
| convert_fails: "imdecode cv file_bytes = Inr img \<Longrightarrow> cvtColor_BGR2RGB img = Inl e \<Longrightarrow>
     stage_fails cv feature_extractor feature_selector classifier file_bytes e []"
| preprocess_fails: "imdecode cv file_bytes = Inr img \<Longrightarrow> cvtColor_BGR2RGB img = Inr img_rgb \<Longrightarrow>
     preprocess_image cv img_rgb = Inl e \<Longrightarrow>
     stage_fails cv feature_extractor feature_selector classifier file_bytes e []"
| extractor_fails: "imdecode cv file_bytes = Inr img \<Longrightarrow> cvtColor_BGR2RGB img = Inr img_rgb \<Longrightarrow>
     preprocess_image cv img_rgb = Inr x \<Longrightarrow> feature_extractor (expand_dims x) = Inl e \<Longrightarrow>
     stage_fails cv feature_extractor feature_selector classifier file_bytes e
       [FeatureExtractorPredict]"
| selector_fails: "imdecode cv file_bytes = Inr img \<Longrightarrow> cvtColor_BGR2RGB img = Inr img_rgb \<Longrightarrow>
     preprocess_image cv img_rgb = Inr x \<Longrightarrow> feature_extractor (expand_dims x) = Inr f \<Longrightarrow>
     feature_selector f = Inl e \<Longrightarrow>
     stage_fails cv feature_extractor feature_selector classifier file_bytes e
       [FeatureExtractorPredict, FeatureSelectorTransform]"
| classifier_fails: "imdecode cv file_bytes = Inr img \<Longrightarrow> cvtColor_BGR2RGB img = Inr img_rgb \<Longrightarrow>
     preprocess_image cv img_rgb = Inr x \<Longrightarrow> feature_extractor (expand_dims x) = Inr f \<Longrightarrow>
     feature_selector f = Inr s \<Longrightarrow> classifier s = Inl e \<Longrightarrow>
     stage_fails cv feature_extractor feature_selector classifier file_bytes e
       [FeatureExtractorPredict, FeatureSelectorTransform, ClassifierPredictProba]"
| no_row: "imdecode cv file_bytes = Inr img \<Longrightarrow> cvtColor_BGR2RGB img = Inr img_rgb \<Longrightarrow>
     preprocess_image cv img_rgb = Inr x \<Longrightarrow> feature_extractor (expand_dims x) = Inr f \<Longrightarrow>
     feature_selector f = Inr s \<Longrightarrow> classifier s = Inr [] \<Longrightarrow>
     stage_fails cv feature_extractor feature_selector classifier file_bytes
       (IndexError ''index 0 is out of bounds'')
       [FeatureExtractorPredict, FeatureSelectorTransform, ClassifierPredictProba]"
| no_class: "imdecode cv file_bytes = Inr img \<Longrightarrow> cvtColor_BGR2RGB img = Inr img_rgb \<Longrightarrow>
     preprocess_image cv img_rgb = Inr x \<Longrightarrow> feature_extractor (expand_dims x) = Inr f \<Longrightarrow>
     feature_selector f = Inr s \<Longrightarrow> classifier s = Inr ([] # others) \<Longrightarrow>
     stage_fails cv feature_extractor feature_selector classifier file_bytes
       (ValueError ''max() arg is an empty sequence'')
       [FeatureExtractorPredict, FeatureSelectorTransform, ClassifierPredictProba]"

section \<open>Preprocessing as the design describes it\<close>

text \<open>
  The design document lists the preprocessing as seven steps in a fixed order: resize,
  convert to float, standardize, rescale, quantize, equalize each channel, convert back
  and divide by 255. Each step is written here from that description, over the same open
  float arithmetic, and \<open>preprocess_steps\<close> chains them; the chain is compared with
  \<open>preprocess_image_f32\<close> below.
\<close>

definition and_then :: "exn + 'a \<Rightarrow> ('a \<Rightarrow> exn + 'b) \<Rightarrow> exn + 'b" where
  "and_then m f = (case m of Inl e \<Rightarrow> Inl e | Inr x \<Rightarrow> f x)"

definition step_resize :: "cv2 \<Rightarrow> uint8 ndarray3 \<Rightarrow> exn + uint8 ndarray3" where
  "step_resize cv a = resize cv a (224, 224)"

definition step_to_float :: "'f float32_ops \<Rightarrow> uint8 ndarray3 \<Rightarrow> exn + 'f ndarray3" where
  "step_to_float np a = Inr (map3 (f32_of_uint8 np) a)"

definition step_standardize :: "'f float32_ops \<Rightarrow> 'f ndarray3 \<Rightarrow> exn + 'f ndarray3" where
  "step_standardize np a =
     (let global_mean = f32_mean np (flat a);
          global_std = f32_std np (flat a);
          divisor = f32_add np global_std (f32_const np (1 / 10 ^ 8))
      in Inr (map3 (\<lambda>x. f32_div np (f32_sub np x global_mean) divisor) a))"

definition step_rescale :: "'f float32_ops \<Rightarrow> 'f ndarray3 \<Rightarrow> exn + 'f ndarray3" where
  "step_rescale np a =
     (if flat a = [] then Inl (ValueError ''zero-size array to reduction operation'')
      else let global_min = f32_min np (flat a);
               global_range = f32_ptp np (flat a);
               divisor = f32_add np global_range (f32_const np (1 / 10 ^ 8))
           in Inr (map3 (\<lambda>x. f32_div np (f32_sub np x global_min) divisor) a))"

definition step_quantize :: "'f float32_ops \<Rightarrow> 'f ndarray3 \<Rightarrow> exn + uint8 ndarray3" where
  "step_quantize np a = Inr (map3 (\<lambda>x. f32_to_uint8 np (f32_mul np x (f32_const np 255))) a)"

definition step_unit_range :: "'f float32_ops \<Rightarrow> uint8 ndarray3 \<Rightarrow> exn + 'f ndarray3" where
  "step_unit_range np a = Inr (map3 (\<lambda>v. f32_div np (f32_of_uint8 np v) (f32_const np 255)) a)"

text \<open>
  Standardizing and rescaling over the reals, where a zero divisor is the outcome
  \<open>NonFinite\<close>: the forms in which the proofs about \<open>preprocess_image\<close> use them.
\<close>

definition real_standardize :: "real ndarray3 \<Rightarrow> exn + real ndarray3" where
  "real_standardize a =
     (let mean = sum_list (flat a) / real (length (flat a));
          variance = sum_list (map (\<lambda>x. (x - mean)\<^sup>2) (flat a)) / real (length (flat a));
          divisor = sqrt variance + 1 / 10 ^ 8
      in if divisor = 0 then Inl NonFinite
         else Inr (map3 (\<lambda>x. (x - mean) / divisor) a))"

definition real_rescale :: "real ndarray3 \<Rightarrow> exn + real ndarray3" where
  "real_rescale a =
     (if flat a = [] then Inl (ValueError ''zero-size array to reduction operation'')
      else let lo = Min (set (flat a));
               hi = Max (set (flat a));
               divisor = (hi - lo) + 1 / 10 ^ 8
           in if divisor = 0 then Inl NonFinite
              else Inr (map3 (\<lambda>x. (x - lo) / divisor) a))"

text \<open>The three planes of an image, and the image made of three planes.\<close>

definition split3 :: "'a ndarray3 \<Rightarrow> exn + 'a plane \<times> 'a plane \<times> 'a plane" where
  "split3 a =
     (if list_all (list_all (\<lambda>px. 3 \<le> length px)) a
      then Inr (map (map (\<lambda>px. px ! 0)) a, map (map (\<lambda>px. px ! 1)) a, map (map (\<lambda>px. px ! 2)) a)
      else Inl (IndexError ''index is out of bounds''))"

definition merge3 :: "'a plane \<Rightarrow> 'a plane \<Rightarrow> 'a plane \<Rightarrow> 'a ndarray3" where
  "merge3 p0 p1 p2 =
     map (\<lambda>(r0, r1, r2). map (\<lambda>(a, b, c). [a, b, c]) (zip r0 (zip r1 r2))) (zip p0 (zip p1 p2))"

definition step_equalize :: "cv2 \<Rightarrow> uint8 ndarray3 \<Rightarrow> exn + uint8 ndarray3" where
  "step_equalize cv a =
     (let equalizer = \<lparr>clipLimit = 2 / 100, tileGridSize = (8, 8)\<rparr>
      in and_then (split3 a) (\<lambda>(red, green, blue).
         and_then (clahe_apply cv equalizer red) (\<lambda>red'.
         and_then (clahe_apply cv equalizer green) (\<lambda>green'.
         and_then (clahe_apply cv equalizer blue) (\<lambda>blue'.
         Inr (merge3 red' green' blue'))))))"

definition preprocess_steps :: "'f float32_ops \<Rightarrow> cv2 \<Rightarrow> uint8 ndarray3 \<Rightarrow> exn + 'f ndarray3" where
  "preprocess_steps np cv a =
     and_then (and_then (and_then (and_then (and_then (and_then
       (step_resize cv a) (step_to_float np)) (step_standardize np)) (step_rescale np))
       (step_quantize np)) (step_equalize cv)) (step_unit_range np)"

text \<open>
  What the proofs ask of the two library calls inside the preprocessing: a successful
  resize to 224 by 224 returns 224 rows of 224 three-channel pixels, and the equalizer
  returns a plane of the shape it was given.
\<close>

definition resize_returns_target :: "cv2 \<Rightarrow> uint8 ndarray3 \<Rightarrow> bool" where
  "resize_returns_target cv a =
     (case resize cv a IMG_SIZE of Inl e \<Rightarrow> True | Inr r \<Rightarrow> has_shape 224 224 3 r)"

definition clahe_keeps_shape :: "cv2 \<Rightarrow> bool" where
  "clahe_keeps_shape cv =
     (\<forall>cl p q. clahe_apply cv cl p = Inr q \<longrightarrow> map length q = map length p)"

definition clahe_succeeds :: "cv2 \<Rightarrow> bool" where
  "clahe_succeeds cv = (\<forall>cl p. \<exists>q. clahe_apply cv cl p = Inr q)"

text \<open>An array with at least one element, all of whose elements are \<open>v\<close>.\<close>

definition uniform :: "'a ndarray3 \<Rightarrow> 'a \<Rightarrow> bool" where
  "uniform a v = (flat a \<noteq> [] \<and> list_all (\<lambda>x. x = v) (flat a))"

section \<open>Preprocessing over a store of arrays\<close>

text \<open>
  Whether a stage writes into the array it was given or returns a new one is not visible
  in \<open>preprocess_image\<close>. Here every array lives in a store, at an address; a NumPy or
  OpenCV call that returns a new array allocates a new address, and the only writes into
  an existing array are the slice assignments \<^verbatim>\<open>img_clahe[..., i] = ...\<close>.
\<close>

datatype ndarray = U8 "uint8 ndarray3" | F32 "real ndarray3"

type_synonym store = "ndarray list"

fun u8 :: "ndarray \<Rightarrow> uint8 ndarray3" where
  "u8 (U8 a) = a"
| "u8 (F32 a) = astype_uint8 a"

fun f32 :: "ndarray \<Rightarrow> real ndarray3" where
  "f32 (F32 a) = a"
| "f32 (U8 a) = astype_float32 a"

definition new_array :: "store \<Rightarrow> ndarray \<Rightarrow> store \<times> nat" where
  "new_array st a = (st @ [a], length st)"

fun clahe_loop_store ::
  "cv2 \<Rightarrow> clahe \<Rightarrow> store \<Rightarrow> nat \<Rightarrow> nat list \<Rightarrow> nat \<Rightarrow> exn + store"
where
  "clahe_loop_store cv cl st img [] img_clahe = Inr st"
| "clahe_loop_store cv cl st img (i # rest) img_clahe =
     (case get_channel (u8 (st ! img)) i of
        Inl e \<Rightarrow> Inl e
      | Inr ch \<Rightarrow>
          (case clahe_apply cv cl ch of
             Inl e \<Rightarrow> Inl e
           | Inr out \<Rightarrow>
               (case set_channel (u8 (st ! img_clahe)) i out of
                  Inl e \<Rightarrow> Inl e
                | Inr written \<Rightarrow>
                    clahe_loop_store cv cl (st[img_clahe := U8 written]) img rest img_clahe)))"

definition preprocess_image_store :: "cv2 \<Rightarrow> store \<Rightarrow> nat \<Rightarrow> exn + store \<times> nat" where
  "preprocess_image_store cv st image_in =
     (case resize cv (u8 (st ! image_in)) IMG_SIZE of
        Inl e \<Rightarrow> Inl e
      | Inr resized \<Rightarrow>
          let (st, img_resized) = new_array st (U8 resized);
              (st, img0) = new_array st (F32 (astype_float32 (u8 (st ! img_resized))));
              (st, centred) =
                new_array st (F32 (np_subtract (f32 (st ! img0)) (np_mean (f32 (st ! img0)))))
          in (case np_divide (f32 (st ! centred)) (np_std (f32 (st ! img0)) + 0.00000001) of
                Inl e \<Rightarrow> Inl e
              | Inr standardized \<Rightarrow>
                  let (st, img1) = new_array st (F32 standardized)
                  in (case np_min (f32 (st ! img1)) of
                        Inl e \<Rightarrow> Inl e
                      | Inr lo \<Rightarrow>
                          let (st, shifted) = new_array st (F32 (np_subtract (f32 (st ! img1)) lo))
                          in (case np_ptp (f32 (st ! img1)) of
                                Inl e \<Rightarrow> Inl e
                              | Inr ptp \<Rightarrow>
                                  (case np_divide (f32 (st ! shifted)) (ptp + 0.00000001) of
                                     Inl e \<Rightarrow> Inl e
                                   | Inr rescaled \<Rightarrow>
                                       let (st, img2) = new_array st (F32 rescaled);
                                           (st, scaled) =
                                             new_array st (F32 (np_multiply (f32 (st ! img2)) 255));
                                           (st, img) =
                                             new_array st (U8 (astype_uint8 (f32 (st ! scaled))));
                                           cl = createCLAHE 0.02 (8, 8);
                                           (st, img_clahe) =
                                             new_array st (U8 (zeros_like (u8 (st ! img))))
                                       in (case clahe_loop_store cv cl st img [0..<3] img_clahe of
                                             Inl e \<Rightarrow> Inl e
                                           | Inr st \<Rightarrow>
                                               let (st, as_float) =
                                                     new_array st
                                                       (F32 (astype_float32 (u8 (st ! img_clahe))))
                                               in (case np_divide (f32 (st ! as_float)) 255 of
                                                     Inl e \<Rightarrow> Inl e
                                                   | Inr result \<Rightarrow>
                                                       Inr (new_array st (F32 result)))))))))"

text \<open>
  The inference over the store, and two inferences in a row on the same image: the second
  runs in the store the first one left. The three models are functions of their input;
  they stand for the models loaded once and never written to.
\<close>

definition predict_image_class_store ::
  "cv2 \<Rightarrow> store \<Rightarrow> nat \<Rightarrow> (real ndarray3 list \<Rightarrow> exn + 'e) \<Rightarrow> ('e \<Rightarrow> exn + 's) \<Rightarrow>
   ('s \<Rightarrow> exn + real list list) \<Rightarrow> (model_call list \<times> (exn + (string, real) dict)) \<times> store"
where
  "predict_image_class_store cv st img feature_extractor feature_selector classifier =
     (case preprocess_image_store cv st img of
        Inl e \<Rightarrow> (([], Inl e), st)
      | Inr (st, img_processed) \<Rightarrow>
          (case feature_extractor (expand_dims (f32 (st ! img_processed))) of
             Inl e \<Rightarrow> (([FeatureExtractorPredict], Inl e), st)
           | Inr features \<Rightarrow>
               (case feature_selector features of
                  Inl e \<Rightarrow> (([FeatureExtractorPredict, FeatureSelectorTransform], Inl e), st)
                | Inr selected_features \<Rightarrow>
                    (case classifier selected_features of
                       Inl e \<Rightarrow>
                         (([FeatureExtractorPredict, FeatureSelectorTransform,
                            ClassifierPredictProba], Inl e), st)
                     | Inr probs \<Rightarrow>
                         (([FeatureExtractorPredict, FeatureSelectorTransform,
                            ClassifierPredictProba],
                           (case probs of
                              [] \<Rightarrow> Inl (IndexError ''index 0 is out of bounds'')
                            | prediction_probs # _ \<Rightarrow>
                                Inr (dict (zip CLASS_NAMES prediction_probs)))), st)))))"

definition infer_twice ::
  "cv2 \<Rightarrow> store \<Rightarrow> nat \<Rightarrow> (real ndarray3 list \<Rightarrow> exn + 'e) \<Rightarrow> ('e \<Rightarrow> exn + 's) \<Rightarrow>
   ('s \<Rightarrow> exn + real list list) \<Rightarrow>
   (model_call list \<times> (exn + (string, real) dict)) \<times> (model_call list \<times> (exn + (string, real) dict))"
where
  "infer_twice cv st img feature_extractor feature_selector classifier =
     (let (first, st) = predict_image_class_store cv st img feature_extractor feature_selector
                          classifier;
          (second, st) = predict_image_class_store cv st img feature_extractor feature_selector
                           classifier
      in (first, second))"

section \<open>Stand-ins for the library calls, for concrete runs\<close>

text \<open>
  A resize that fills the target with the top-left pixel, an equalizer that returns its
  input, a decoder that reads a buffer of exactly three bytes as one blue-green-red pixel,
  and models that return fixed values.
\<close>

definition resize_fill :: "uint8 ndarray3 \<Rightarrow> nat \<times> nat \<Rightarrow> exn + uint8 ndarray3" where
  "resize_fill a dsize =
     (case a of
        (px # _) # _ \<Rightarrow> Inr (replicate (snd dsize) (replicate (fst dsize) px))
      | _ \<Rightarrow> Inl (Cv2Error ''(-215:Assertion failed) !ssize.empty() in function resize''))"

definition clahe_identity :: "clahe \<Rightarrow> uint8 plane \<Rightarrow> exn + uint8 plane" where
  "clahe_identity cl p = Inr p"

definition imdecode_raw :: "uint8 list \<Rightarrow> exn + uint8 ndarray3 option" where
  "imdecode_raw buf =
     (if buf = [] then Inl (Cv2Error ''(-215:Assertion failed) !buf.empty() in function imdecode_'')
      else if length buf = 3 then Inr (Some [[buf]])
      else Inr None)"

definition cv_stub :: cv2 where
  "cv_stub = \<lparr>resize = resize_fill, clahe_apply = clahe_identity, imdecode = imdecode_raw\<rparr>"

definition extractor_stub :: "real ndarray3 list \<Rightarrow> exn + unit" where
  "extractor_stub batch = Inr ()"

definition selector_stub :: "unit \<Rightarrow> exn + unit" where
  "selector_stub features = Inr ()"

definition classifier_stub :: "real list \<Rightarrow> unit \<Rightarrow> exn + real list list" where
  "classifier_stub probs features = Inr [probs]"

definition failing_stub :: "string \<Rightarrow> 'a \<Rightarrow> exn + 'b" where
  "failing_stub msg x = Inl (ModelError msg)"

text \<open>
  An arithmetic over the reals whose addition loses an addend that is at most
  \<open>1 / 2 ^ 24\<close> of the other operand in size, as a 24-bit significand does; everything
  else is exact.
\<close>

definition absorbing_add :: "real \<Rightarrow> real \<Rightarrow> real" where
  "absorbing_add x y = (if \<bar>y\<bar> * 2 ^ 24 \<le> \<bar>x\<bar> then x else x + y)"

definition absorbing_reals :: "real float32_ops" where
  "absorbing_reals = exact_reals\<lparr>f32_add := absorbing_add\<rparr>"

definition black :: "real ndarray3" where
  "black = replicate 224 (replicate 224 [0, 0, 0])"

section \<open>Dictionaries and \<^verbatim>\<open>max\<close>\<close>

lemma dict_setitem_fresh: "k \<notin> fst ` set d \<Longrightarrow> dict_setitem d k v = d @ [(k, v)]"
  by (induction d) auto

lemma foldl_setitem_distinct:
  "distinct (map fst ps) \<Longrightarrow> fst ` set ps \<inter> fst ` set d = {} \<Longrightarrow>
   foldl (\<lambda>d (k, v). dict_setitem d k v) d ps = d @ ps"
proof (induction ps arbitrary: d)
  case Nil
  then show ?case by simp
next
  case (Cons p ps)
  obtain k v where p: "p = (k, v)" by (cases p)
  from Cons.prems have fresh: "k \<notin> fst ` set d" by (auto simp: p)
  have "foldl (\<lambda>d (k, v). dict_setitem d k v) (d @ [(k, v)]) ps = (d @ [(k, v)]) @ ps"
    using Cons.prems by (intro Cons.IH) (auto simp: p)
  then show ?case by (simp add: p dict_setitem_fresh [OF fresh])
qed

lemma dict_zip_distinct: "distinct ks \<Longrightarrow> dict (zip ks vs) = zip ks vs"
  unfolding dict_def
  using foldl_setitem_distinct [of "zip ks vs" "[]"] by (simp add: map_fst_zip_take)

lemma distinct_CLASS_NAMES: "distinct CLASS_NAMES"
  by (simp add: CLASS_NAMES_def)

lemma length_CLASS_NAMES: "length CLASS_NAMES = 4"
  by (simp add: CLASS_NAMES_def)

lemma dict_class_zip: "dict (zip CLASS_NAMES probs) = zip CLASS_NAMES probs"
  by (rule dict_zip_distinct [OF distinct_CLASS_NAMES])

lemma keys_class_zip: "keys (dict (zip CLASS_NAMES probs)) = take (length probs) CLASS_NAMES"
  by (simp add: dict_class_zip keys_def map_fst_zip_take min_def)

lemma map_of_zip_nth_distinct:
  "distinct ks \<Longrightarrow> i < length ks \<Longrightarrow> i < length vs \<Longrightarrow>
   map_of (zip ks vs) (ks ! i) = Some (vs ! i)"
proof (induction ks arbitrary: vs i)
  case Nil
  then show ?case by simp
next
  case (Cons k ks)
  then obtain v vs' where vs: "vs = v # vs'" by (cases vs) auto
  show ?case
  proof (cases i)
    case 0
    then show ?thesis by (simp add: vs)
  next
    case (Suc n)
    with Cons.prems have "ks ! n \<noteq> k" by auto
    with Cons Suc show ?thesis by (simp add: vs)
  qed
qed

lemma dict_get_class_zip:
  "i < length probs \<Longrightarrow> i < 4 \<Longrightarrow>
   dict_get (dict (zip CLASS_NAMES probs)) (CLASS_NAMES ! i) = Some (probs ! i)"
  unfolding dict_class_zip dict_get_def
  by (rule map_of_zip_nth_distinct) (simp_all add: distinct_CLASS_NAMES length_CLASS_NAMES)

lemma foldl_max_first:
  fixes key :: "'a \<Rightarrow> 'b::linorder"
  shows "\<exists>i < length (x # rest).
           foldl (\<lambda>best y. if key best < key y then y else best) x rest = (x # rest) ! i \<and>
           (\<forall>j < length (x # rest). key ((x # rest) ! j) \<le> key ((x # rest) ! i)) \<and>
           (\<forall>j < i. key ((x # rest) ! j) < key ((x # rest) ! i))"
proof (induction rest rule: rev_induct)
  case Nil
  then show ?case by simp
next
  case (snoc y rest)
  let ?f = "\<lambda>best y. if key best < key y then y else best"
  let ?xs = "x # rest"
  from snoc obtain i where i: "i < length ?xs" "foldl ?f x rest = ?xs ! i"
    "\<forall>j < length ?xs. key (?xs ! j) \<le> key (?xs ! i)" "\<forall>j < i. key (?xs ! j) < key (?xs ! i)"
    by blast
  have nth_old: "\<And>j. j < length ?xs \<Longrightarrow> (x # rest @ [y]) ! j = ?xs ! j"
    by (metis append_Cons nth_append)
  have nth_new: "(x # rest @ [y]) ! length ?xs = y"
    by (metis append_Cons nth_append_length)
  show ?case
  proof (cases "key (?xs ! i) < key y")
    case True
    have "foldl ?f x (rest @ [y]) = y" using True i(2) by simp
    moreover have "\<forall>j < length (x # rest @ [y]). key ((x # rest @ [y]) ! j) \<le> key y"
    proof (intro allI impI)
      fix j assume "j < length (x # rest @ [y])"
      then consider "j < length ?xs" | "j = length ?xs" by fastforce
      then show "key ((x # rest @ [y]) ! j) \<le> key y"
      proof cases
        case 1
        then show ?thesis using i(3) True nth_old by fastforce
      next
        case 2
        then show ?thesis using nth_new by simp
      qed
    qed
    moreover have "\<forall>j < length ?xs. key ((x # rest @ [y]) ! j) < key y"
      using i(3) True nth_old by fastforce
    ultimately show ?thesis
      using nth_new by (intro exI [of _ "length ?xs"]) simp
  next
    case False
    have "foldl ?f x (rest @ [y]) = ?xs ! i" using False i(2) by simp
    moreover have "\<forall>j < length (x # rest @ [y]). key ((x # rest @ [y]) ! j) \<le> key (?xs ! i)"
    proof (intro allI impI)
      fix j assume "j < length (x # rest @ [y])"
      then consider "j < length ?xs" | "j = length ?xs" by fastforce
      then show "key ((x # rest @ [y]) ! j) \<le> key (?xs ! i)"
      proof cases
        case 1
        then show ?thesis using i(3) nth_old by simp
      next
        case 2
        then show ?thesis using nth_new False by simp
      qed
    qed
    moreover have "\<forall>j < i. key ((x # rest @ [y]) ! j) < key (?xs ! i)"
      using i(1,4) nth_old by simp
    ultimately show ?thesis
      using i(1) nth_old [OF i(1)] by (intro exI [of _ i]) simp
  qed
qed

lemma py_max_first:
  fixes key :: "'a \<Rightarrow> 'b::linorder"
  assumes "xs \<noteq> []"
  shows "\<exists>i < length xs. py_max key xs = Inr (xs ! i) \<and>
           (\<forall>j < length xs. key (xs ! j) \<le> key (xs ! i)) \<and>
           (\<forall>j < i. key (xs ! j) < key (xs ! i))"
proof -
  from assms obtain x rest where xs: "xs = x # rest" by (cases xs) auto
  show ?thesis
    unfolding xs py_max_def using foldl_max_first [of x rest key] by simp
qed

section \<open>Arrays: elementwise maps, uniform arrays, divisors\<close>

lemma flat_map3: "flat (map3 f a) = map f (flat a)"
  by (simp add: flat_def map3_def map_concat)

lemma map3_map3: "map3 f (map3 g a) = map3 (f \<circ> g) a"
  by (simp add: map3_def)

lemma in_flat: "row \<in> set a \<Longrightarrow> px \<in> set row \<Longrightarrow> x \<in> set px \<Longrightarrow> x \<in> set (flat a)"
  by (auto simp: flat_def)

lemma map3_cong_flat: "(\<And>x. x \<in> set (flat a) \<Longrightarrow> f x = g x) \<Longrightarrow> map3 f a = map3 g a"
  unfolding map3_def by (auto intro!: map_cong dest: in_flat)

lemma list_all_eq_replicate: "list_all (\<lambda>x. x = v) xs \<Longrightarrow> xs = replicate (length xs) v"
  by (induction xs) auto

lemma uniform_set: "uniform a v \<Longrightarrow> set (flat a) = {v}"
  unfolding uniform_def by (cases "flat a") (auto simp: list_all_iff)

lemma uniform_mean: 
  assumes "uniform a (v::real)" shows "np_mean a = v"
proof -
  from assms have "flat a = replicate (length (flat a)) v" "flat a \<noteq> []"
    by (auto simp: uniform_def intro: list_all_eq_replicate)
  then have "sum_list (flat a) = real (length (flat a)) * v" "length (flat a) \<noteq> 0"
    by (metis sum_list_replicate, simp)
  then show ?thesis by (simp add: np_mean_def)
qed

lemma uniform_map3: "uniform a v \<Longrightarrow> uniform (map3 f a) (f v)"
  by (auto simp: uniform_def flat_map3 list_all_iff)

lemma uniform_map3_const: "uniform a v \<Longrightarrow> map3 f a = map3 (\<lambda>_. f v) a"
  by (rule map3_cong_flat) (simp add: uniform_set)

lemma uniform_std:
  assumes "uniform a (v::real)" shows "np_std a = 0"
proof -
  have "uniform (map3 (\<lambda>x. (x - np_mean a)\<^sup>2) a) 0"
    using uniform_map3 [OF assms, of "\<lambda>x. (x - np_mean a)\<^sup>2"] by (simp add: uniform_mean [OF assms])
  then show ?thesis by (simp add: np_std_def uniform_mean)
qed

lemma uniform_min: "uniform a (v::real) \<Longrightarrow> np_min a = Inr v"
  by (simp add: np_min_def uniform_set) (simp add: uniform_def)

lemma uniform_ptp: "uniform a (v::real) \<Longrightarrow> np_ptp a = Inr 0"
  by (simp add: np_ptp_def uniform_set) (simp add: uniform_def)

lemma np_mean_nonneg:
  assumes "\<And>x. x \<in> set (flat a) \<Longrightarrow> 0 \<le> x" shows "0 \<le> np_mean a"
  unfolding np_mean_def using assms by (simp add: sum_list_nonneg)

lemma np_std_nonneg: "0 \<le> np_std a"
  unfolding np_std_def by (auto intro!: np_mean_nonneg simp: flat_map3)

lemma np_ptp_nonneg: "np_ptp a = Inr p \<Longrightarrow> 0 \<le> p"
  by (auto simp: np_ptp_def split: if_splits)

lemma np_divide_pos: "0 < s \<Longrightarrow> np_divide a s = Inr (map3 (\<lambda>x. x / s) a)"
  by (simp add: np_divide_def)

lemma std_divisor_pos: "0 < np_std a + 0.00000001"
  using np_std_nonneg [of a] by simp

lemma ptp_divisor_pos: "np_ptp a = Inr p \<Longrightarrow> 0 < p + 0.00000001"
  using np_ptp_nonneg [of a p] by simp

lemma uniform_centred_scaled:
  assumes "uniform a (v::real)"
  shows "map3 (\<lambda>x. x / s) (np_subtract a v) = map3 (\<lambda>_. 0) a"
proof -
  have "map3 (\<lambda>x. x / s) (np_subtract a v) = map3 (\<lambda>x. (x - v) / s) a"
    by (simp add: np_subtract_def map3_map3 comp_def)
  also have "\<dots> = map3 (\<lambda>_. (v - v) / s) a"
    by (rule uniform_map3_const [OF assms])
  finally show ?thesis by simp
qed

lemma uniform_standardized:
  assumes "uniform a (v::real)"
  shows "np_divide (np_subtract a (np_mean a)) (np_std a + 0.00000001) = Inr (map3 (\<lambda>_. 0) a)"
  by (simp only: np_divide_pos [OF std_divisor_pos] uniform_mean [OF assms]
      uniform_centred_scaled [OF assms])

lemma uniform_zero: "flat a \<noteq> [] \<Longrightarrow> uniform (map3 (\<lambda>_. c) a) c"
  by (simp add: uniform_def flat_map3 list_all_iff)

lemma zero_rescaled:
  fixes a :: "'a ndarray3"
  assumes "flat a \<noteq> []"
  defines "z \<equiv> map3 (\<lambda>_. 0::real) a"
  shows "np_min z = Inr 0" and "np_ptp z = Inr 0"
    and "np_divide (np_subtract z 0) (0 + 0.00000001) = Inr z"
    and "astype_uint8 (np_multiply z 255) = map3 (\<lambda>_. 0) a"
proof -
  have u: "uniform z 0" unfolding z_def by (rule uniform_zero [OF assms(1)])
  show "np_min z = Inr 0" by (rule uniform_min [OF u])
  show "np_ptp z = Inr 0" by (rule uniform_ptp [OF u])
  show "np_divide (np_subtract z 0) (0 + 0.00000001) = Inr z"
    using uniform_centred_scaled [OF u, of "0 + 0.00000001"]
    by (simp add: np_divide_def z_def map3_map3 comp_def)
  show "astype_uint8 (np_multiply z 255) = map3 (\<lambda>_. 0) a"
    by (simp add: astype_uint8_def np_multiply_def z_def map3_map3 comp_def trunc_def)
qed

section \<open>The equalization loop writes the three planes\<close>

lemma upt_3: "[0..<3] = [0, 1, 2]"
  by (simp add: upt_conv_Cons)

lemma write_row:
  "list_all (\<lambda>px. length px = 3) row \<Longrightarrow> length r0 = length row \<Longrightarrow> length r1 = length row \<Longrightarrow>
   length r2 = length row \<Longrightarrow>
   map2 (\<lambda>px v. px[2 := v]) (map2 (\<lambda>px v. px[1 := v])
     (map2 (\<lambda>px v. px[0 := v]) (map (map (\<lambda>_. z)) row) r0) r1) r2
   = map (\<lambda>(a, b, c). [a, b, c]) (zip r0 (zip r1 r2))"
proof (induction row arbitrary: r0 r1 r2)
  case Nil
  then show ?case by simp
next
  case (Cons px row)
  from Cons.prems(2) obtain a r0' where r0: "r0 = a # r0'" by (cases r0) auto
  from Cons.prems(3) obtain b r1' where r1: "r1 = b # r1'" by (cases r1) auto
  from Cons.prems(4) obtain c r2' where r2: "r2 = c # r2'" by (cases r2) auto
  from Cons.prems(1) have "length px = Suc (Suc (Suc 0))" by simp
  then obtain x y w where px: "px = [x, y, w]"
    by (auto simp: length_Suc_conv)
  show ?case using Cons by (simp add: r0 r1 r2 px)
qed


lemma write_rows:
  "list_all (list_all (\<lambda>px. length px = 3)) a \<Longrightarrow> map length q0 = map length a \<Longrightarrow>
   map length q1 = map length a \<Longrightarrow> map length q2 = map length a \<Longrightarrow>
   map2 (\<lambda>row chrow. map2 (\<lambda>px v. px[2 := v]) row chrow)
     (map2 (\<lambda>row chrow. map2 (\<lambda>px v. px[1 := v]) row chrow)
       (map2 (\<lambda>row chrow. map2 (\<lambda>px v. px[0 := v]) row chrow) (map3 (\<lambda>_. z) a) q0) q1) q2
   = merge3 q0 q1 q2"
proof (induction a arbitrary: q0 q1 q2)
  case Nil
  then show ?case by (simp add: merge3_def map3_def)
next
  case (Cons row a)
  from Cons.prems(2) obtain r0 q0' where q0: "q0 = r0 # q0'" by (cases q0) auto
  from Cons.prems(3) obtain r1 q1' where q1: "q1 = r1 # q1'" by (cases q1) auto
  from Cons.prems(4) obtain r2 q2' where q2: "q2 = r2 # q2'" by (cases q2) auto
  have row: "map2 (\<lambda>px v. px[2 := v]) (map2 (\<lambda>px v. px[1 := v])
     (map2 (\<lambda>px v. px[0 := v]) (map (map (\<lambda>_. z)) row) r0) r1) r2
   = map (\<lambda>(a, b, c). [a, b, c]) (zip r0 (zip r1 r2))"
    using Cons.prems by (intro write_row) (simp_all add: q0 q1 q2)
  have rest: "map2 (\<lambda>row chrow. map2 (\<lambda>px v. px[2 := v]) row chrow)
     (map2 (\<lambda>row chrow. map2 (\<lambda>px v. px[1 := v]) row chrow)
       (map2 (\<lambda>row chrow. map2 (\<lambda>px v. px[0 := v]) row chrow) (map3 (\<lambda>_. z) a) q0') q1') q2'
   = merge3 q0' q1' q2'"
    using Cons.prems by (intro Cons.IH) (simp_all add: q0 q1 q2)
  show ?case using row rest by (simp add: q0 q1 q2 merge3_def map3_def)
qed

lemma pixels_map3:
  "list_all (list_all (\<lambda>px. length px = n)) (map3 f a) = list_all (list_all (\<lambda>px. length px = n)) a"
  by (simp add: map3_def list_all_iff)

lemma pixels_ge: "list_all (list_all (\<lambda>px. length px = 3)) a \<Longrightarrow> i < 3 \<Longrightarrow>
  list_all (list_all (\<lambda>px. i < length px)) a"
  by (auto simp: list_all_iff)

lemma written_pixels:
  "list_all (list_all (\<lambda>px. length px = n)) a \<Longrightarrow>
   list_all (list_all (\<lambda>px. length px = n))
     (map2 (\<lambda>row chrow. map2 (\<lambda>px v. px[i := v]) row chrow) a ch)"
  by (fastforce simp: list_all_iff dest!: set_zip_leftD)

lemma written_rows:
  "map length ch = map length a \<Longrightarrow>
   map length (map2 (\<lambda>row chrow. map2 (\<lambda>px v. px[i := v]) row chrow) a ch) = map length a"
proof (induction a arbitrary: ch)
  case Nil
  then show ?case by simp
next
  case (Cons row a)
  then obtain r ch' where "ch = r # ch'" by (cases ch) auto
  with Cons show ?case by simp
qed

lemma set_channel_ok:
  assumes "list_all (list_all (\<lambda>px. length px = 3)) a" "i < 3" "map length ch = map length a"
  shows "set_channel a i ch = Inr (map2 (\<lambda>row chrow. map2 (\<lambda>px v. px[i := v]) row chrow) a ch)"
  using pixels_ge [OF assms(1,2)] assms(3) by (simp add: set_channel_def)

lemma get_channel_ok:
  assumes "list_all (list_all (\<lambda>px. length px = 3)) a" "i < 3"
  shows "get_channel a i = Inr (map (map (\<lambda>px. px ! i)) a)"
  using pixels_ge [OF assms] by (simp add: get_channel_def)

lemma split3_ok:
  assumes "list_all (list_all (\<lambda>px. length px = 3)) a"
  shows "split3 a = Inr (map (map (\<lambda>px. px ! 0)) a, map (map (\<lambda>px. px ! 1)) a, map (map (\<lambda>px. px ! 2)) a)"
proof -
  have "list_all (list_all (\<lambda>px. 3 \<le> length px)) a" using assms by (auto simp: list_all_iff)
  then show ?thesis by (simp add: split3_def)
qed

lemma clahe_loop_merge:
  assumes px: "list_all (list_all (\<lambda>px. length px = 3)) img" and keeps: "clahe_keeps_shape cv"
  shows "clahe_loop cv cl img [0..<3] (zeros_like img) =
     and_then (split3 img) (\<lambda>(red, green, blue).
       and_then (clahe_apply cv cl red) (\<lambda>red'.
       and_then (clahe_apply cv cl green) (\<lambda>green'.
       and_then (clahe_apply cv cl blue) (\<lambda>blue'.
       Inr (merge3 red' green' blue')))))"
proof -
  let ?c = "\<lambda>i. map (map (\<lambda>px. px ! i)) img"
  let ?w = "\<lambda>i a ch. map2 (\<lambda>row chrow. map2 (\<lambda>px v. px[i := v]) row chrow) a ch"
  have len: "clahe_apply cv cl (?c i) = Inr q \<Longrightarrow> map length q = map length img" for i q
    using keeps unfolding clahe_keeps_shape_def by fastforce
  have z: "list_all (list_all (\<lambda>px. length px = 3)) (zeros_like img)"
    "map length (zeros_like img) = map length img"
    using px by (simp_all add: zeros_like_def pixels_map3) (simp add: map3_def)
  show ?thesis
  proof (cases "clahe_apply cv cl (?c 0)")
    case (Inl e)
    then show ?thesis
      by (simp add: upt_3 get_channel_ok [OF px] split3_ok [OF px] and_then_def del: One_nat_def)
  next
    case q0: (Inr q0)
    note l0 = len [OF q0]
    have e0: "map length q0 = map length (zeros_like img)" by (simp only: l0 z(2))
    have s0: "set_channel (zeros_like img) 0 q0 = Inr (?w 0 (zeros_like img) q0)"
      by (rule set_channel_ok [OF z(1) _ e0]) simp
    have a1: "list_all (list_all (\<lambda>px. length px = 3)) (?w 0 (zeros_like img) q0)"
      "map length (?w 0 (zeros_like img) q0) = map length img"
      by (rule written_pixels [OF z(1)], rule written_rows [OF e0, THEN trans, OF z(2)])
    show ?thesis
    proof (cases "clahe_apply cv cl (?c 1)")
      case (Inl e)
      then show ?thesis
        by (simp add: upt_3 get_channel_ok [OF px] split3_ok [OF px] and_then_def q0 s0 del: One_nat_def)
    next
      case q1: (Inr q1)
      note l1 = len [OF q1]
      have e1: "map length q1 = map length (?w 0 (zeros_like img) q0)" by (simp only: l1 a1(2))
      have s1: "set_channel (?w 0 (zeros_like img) q0) 1 q1 = Inr (?w 1 (?w 0 (zeros_like img) q0) q1)"
        by (rule set_channel_ok [OF a1(1) _ e1]) simp
      have a2: "list_all (list_all (\<lambda>px. length px = 3)) (?w 1 (?w 0 (zeros_like img) q0) q1)"
        "map length (?w 1 (?w 0 (zeros_like img) q0) q1) = map length img"
        by (rule written_pixels [OF a1(1)], rule written_rows [OF e1, THEN trans, OF a1(2)])
      show ?thesis
      proof (cases "clahe_apply cv cl (?c 2)")
        case (Inl e)
        then show ?thesis
          by (simp add: upt_3 get_channel_ok [OF px] split3_ok [OF px] and_then_def q0 s0 q1 s1 del: One_nat_def)
      next
        case q2: (Inr q2)
        note l2 = len [OF q2]
        have s2: "set_channel (?w 1 (?w 0 (zeros_like img) q0) q1) 2 q2
                  = Inr (?w 2 (?w 1 (?w 0 (zeros_like img) q0) q1) q2)"
          by (rule set_channel_ok [OF a2(1)], simp, simp only: l2 a2(2))
        have "?w 2 (?w 1 (?w 0 (zeros_like img) q0) q1) q2 = merge3 q0 q1 q2"
          unfolding zeros_like_def by (rule write_rows [OF px l0 l1 l2])
        then show ?thesis
          by (simp add: upt_3 get_channel_ok [OF px] split3_ok [OF px] and_then_def q0 s0 q1 s1 q2 s2 del: One_nat_def)
      qed
    qed
  qed
qed

section \<open>The preprocessing, step by step\<close>

lemma np_divide_std:
  "np_divide a (np_std b + 0.00000001) = Inr (map3 (\<lambda>x. x / (np_std b + 0.00000001)) a)"
  by (rule np_divide_pos [OF std_divisor_pos])

lemma flat_astype_float32: "flat (astype_float32 a) = [] \<longleftrightarrow> flat a = []"
  by (simp add: astype_float32_def flat_map3)

lemma real_standardize_eq:
  "real_standardize a = np_divide (np_subtract a (np_mean a)) (np_std a + 0.00000001)"
proof -
  have "np_std a = sqrt (sum_list (map (\<lambda>x. (x - np_mean a)\<^sup>2) (flat a)) / real (length (flat a)))"
    by (simp add: np_std_def np_mean_def flat_map3)
  then show ?thesis
    by (simp add: real_standardize_def Let_def np_divide_def np_subtract_def map3_map3 comp_def
        np_mean_def)
qed

lemma real_rescale_eq:
  "real_rescale a =
     (case np_min a of Inl e \<Rightarrow> Inl e
      | Inr lo \<Rightarrow> (case np_ptp a of Inl e \<Rightarrow> Inl e
         | Inr ptp \<Rightarrow> np_divide (np_subtract a lo) (ptp + 0.00000001)))"
  by (simp add: real_rescale_def np_min_def np_ptp_def Let_def np_divide_def np_subtract_def
      map3_map3 comp_def)

lemma has_shape_pixels: "has_shape h w 3 a \<Longrightarrow> list_all (list_all (\<lambda>px. length px = 3)) a"
  by (auto simp: has_shape_def list_all_iff)

lemma has_shape_map3: "has_shape h w c (map3 f a) = has_shape h w c a"
  by (simp add: has_shape_def map3_def list_all_iff)

lemma step_equalize_eq:
  assumes "list_all (list_all (\<lambda>px. length px = 3)) a" "clahe_keeps_shape cv"
  shows "step_equalize cv a = clahe_loop cv (createCLAHE 0.02 (8, 8)) a [0..<3] (zeros_like a)"
  by (simp add: step_equalize_def clahe_loop_merge [OF assms] createCLAHE_def Let_def)


lemma preprocess_image_chain:
  "preprocess_image cv image_in =
     and_then (resize cv image_in IMG_SIZE) (\<lambda>r.
     and_then (real_standardize (astype_float32 r)) (\<lambda>img1.
     and_then (real_rescale img1) (\<lambda>img2.
     and_then (clahe_loop cv (createCLAHE 0.02 (8, 8)) (astype_uint8 (np_multiply img2 255))
                 [0..<3] (zeros_like (astype_uint8 (np_multiply img2 255)))) (\<lambda>c.
     np_divide (astype_float32 c) 255))))"
  by (simp add: preprocess_image_def and_then_def real_standardize_eq real_rescale_eq Let_def
      split: sum.splits)

lemma real_standardize_shape:
  "real_standardize a = Inr b \<Longrightarrow> has_shape h w c b = has_shape h w c a"
  by (auto simp: real_standardize_eq np_divide_def np_subtract_def has_shape_map3 split: if_splits)

lemma real_rescale_shape:
  "real_rescale a = Inr b \<Longrightarrow> has_shape h w c b = has_shape h w c a"
  by (auto simp: real_rescale_eq np_divide_def np_subtract_def has_shape_map3
      split: if_splits sum.splits)

lemma quantized_shape:
  "has_shape h w c (astype_uint8 (np_multiply a s)) = has_shape h w c a"
  by (simp add: astype_uint8_def np_multiply_def has_shape_map3)

section \<open>Uniform images and the stand-ins\<close>

lemma zeros_like_idem: "zeros_like (zeros_like a) = zeros_like a"
  by (simp add: zeros_like_def map3_map3 comp_def)

lemma preprocess_uniform:
  assumes r: "resize cv image_in IMG_SIZE = Inr r" and u: "uniform r v"
  shows "preprocess_image cv image_in =
           and_then (clahe_loop cv (createCLAHE 0.02 (8, 8)) (zeros_like r) [0..<3] (zeros_like r))
             (\<lambda>c. np_divide (astype_float32 c) 255)"
proof -
  let ?a = "astype_float32 r"
  let ?z = "map3 (\<lambda>_. 0::real) ?a"
  have ua: "uniform ?a (real (unat v))"
    unfolding astype_float32_def by (rule uniform_map3 [OF u])
  have ne: "flat ?a \<noteq> []" using ua by (simp add: uniform_def)
  have st: "real_standardize ?a = Inr ?z"
    by (simp only: real_standardize_eq uniform_standardized [OF ua])
  have rs: "real_rescale ?z = Inr ?z"
    by (simp only: real_rescale_eq zero_rescaled(1-3) [OF ne] sum.case)
  have q: "astype_uint8 (np_multiply ?z 255) = zeros_like r"
    by (simp only: zero_rescaled(4) [OF ne]) (simp add: zeros_like_def astype_float32_def map3_map3 comp_def)
  show ?thesis
    by (simp add: preprocess_image_chain r st rs q zeros_like_idem and_then_def)
qed

lemma uniform_replicate:
  "0 < h \<Longrightarrow> 0 < w \<Longrightarrow> 0 < c \<Longrightarrow> uniform (replicate h (replicate w (replicate c v))) v"
  by (auto simp: uniform_def flat_def list_all_iff)

lemma resize_stub:
  "resize cv_stub [[px]] IMG_SIZE = Inr (replicate 224 (replicate 224 px))"
  by (simp add: cv_stub_def resize_fill_def IMG_SIZE_def)

lemma clahe_stub_keeps_shape: "clahe_keeps_shape cv_stub"
  by (simp add: clahe_keeps_shape_def cv_stub_def clahe_identity_def)

lemma clahe_stub_succeeds: "clahe_succeeds cv_stub"
  by (simp add: clahe_succeeds_def cv_stub_def clahe_identity_def)

lemma resize_stub_target: "resize_returns_target cv_stub [[[a, b, c]]]"
  by (simp add: resize_returns_target_def resize_stub has_shape_def list_all_iff)

lemma clahe_loop_stub_zero:
  "clahe_loop cv_stub cl (replicate h (replicate w [0, 0, 0])) [0..<3]
     (replicate h (replicate w [0, 0, 0])) = Inr (replicate h (replicate w [0, 0, 0]))"
proof -
  let ?Z = "replicate h (replicate w [0::uint8, 0, 0])"
  have px: "list_all (list_all (\<lambda>px. length px = 3)) ?Z" by (simp add: list_all_iff)
  have z: "zeros_like ?Z = ?Z" by (simp add: zeros_like_def map3_def)
  show ?thesis
    using clahe_loop_merge [OF px clahe_stub_keeps_shape, of cl]
    by (simp add: z split3_ok [OF px] and_then_def cv_stub_def clahe_identity_def merge3_def)
qed

lemma preprocess_stub_grey: "preprocess_image cv_stub [[[v, v, v]]] = Inr black"
proof -
  have u: "uniform (replicate 224 (replicate 224 [v, v, v])) v"
    using uniform_replicate [of 224 224 3 v] by (simp add: numeral_3_eq_3)
  have z: "zeros_like (replicate 224 (replicate 224 [v, v, v])) = replicate 224 (replicate 224 [0, 0, 0])"
    by (simp add: zeros_like_def map3_def)
  show ?thesis
    by (simp add: preprocess_uniform [OF resize_stub u] z clahe_loop_stub_zero and_then_def
        np_divide_def astype_float32_def map3_def black_def)
qed

section \<open>The class distribution\<close>

lemma predict_image_class_ok:
  assumes "preprocess_image cv img = Inr x" "feature_extractor (expand_dims x) = Inr f"
    "feature_selector f = Inr s" "classifier s = Inr (probs # others)"
  shows "predict_image_class cv img feature_extractor feature_selector classifier =
           ([FeatureExtractorPredict, FeatureSelectorTransform, ClassifierPredictProba],
            Inr (zip CLASS_NAMES probs))"
  using assms by (simp add: predict_image_class_def dict_class_zip)

lemma class_names_covered:
  "set CLASS_NAMES \<subseteq> set (take n CLASS_NAMES) \<longleftrightarrow> 4 \<le> n"
proof
  assume sub: "set CLASS_NAMES \<subseteq> set (take n CLASS_NAMES)"
  have "card (set CLASS_NAMES) \<le> card (set (take n CLASS_NAMES))"
    by (rule card_mono [OF _ sub]) simp
  also have "\<dots> \<le> length (take n CLASS_NAMES)" by (rule card_length)
  also have "\<dots> \<le> n" by simp
  finally show "4 \<le> n"
    using distinct_card [OF distinct_CLASS_NAMES] by (simp add: length_CLASS_NAMES)
next
  assume "4 \<le> n"
  then show "set CLASS_NAMES \<subseteq> set (take n CLASS_NAMES)"
    by (simp add: length_CLASS_NAMES)
qed

lemma four_elements: "length xs = 4 \<Longrightarrow> \<exists>a b c d. xs = [a, b, c, d]"
  by (auto simp: length_Suc_conv eval_nat_numeral)

lemma zip_class_names_full:
  "length probs = 4 \<Longrightarrow> keys (zip CLASS_NAMES probs) = CLASS_NAMES \<and> map snd (zip CLASS_NAMES probs) = probs"
  by (simp add: keys_def length_CLASS_NAMES)

lemma getitems_class_zip:
  "length probs = 4 \<Longrightarrow> getitems (zip CLASS_NAMES probs) CLASS_NAMES = Inr probs"
  by (auto dest!: four_elements simp: CLASS_NAMES_def dict_getitem_def)

lemma dict_getitem_class_zip:
  "i < 4 \<Longrightarrow> length probs = 4 \<Longrightarrow>
   dict_getitem (zip CLASS_NAMES probs) (CLASS_NAMES ! i) = Inr (probs ! i)"
  using dict_get_class_zip [of i probs] by (simp add: dict_getitem_def dict_get_def dict_class_zip)


text \<open>
  C10. When the classifier's probability vector does not have four entries,
  \<open>predict_image_class\<close> raises nothing: \<^verbatim>\<open>zip\<close> pairs names and probabilities up to the
  shorter of the two. The mapping returned has \<open>min 4 (length probs)\<close> keys, the first
  class names in their order, and holds all four names exactly when the classifier
  returned at least four probabilities.
\<close>

theorem predict_image_class_zip_truncates:
  assumes "preprocess_image cv img = Inr x" "feature_extractor (expand_dims x) = Inr f"
    "feature_selector f = Inr s" "classifier s = Inr (probs # others)"
  shows "snd (predict_image_class cv img feature_extractor feature_selector classifier)
           = Inr (zip CLASS_NAMES probs) \<and>
         keys (zip CLASS_NAMES probs) = take (length probs) CLASS_NAMES \<and>
         distinct (keys (zip CLASS_NAMES probs)) \<and>
         length (keys (zip CLASS_NAMES probs)) = min 4 (length probs) \<and>
         (set CLASS_NAMES \<subseteq> set (keys (zip CLASS_NAMES probs)) \<longleftrightarrow> 4 \<le> length probs)"
proof -
  have k: "keys (zip CLASS_NAMES probs) = take (length probs) CLASS_NAMES"
    using keys_class_zip [of probs] by (simp add: dict_class_zip)
  show ?thesis
    unfolding k predict_image_class_ok [where feature_extractor = feature_extractor and
        feature_selector = feature_selector and classifier = classifier, OF assms]
    by (simp add: class_names_covered distinct_CLASS_NAMES length_CLASS_NAMES min.commute)
qed

theorem predict_image_class_zip_truncates_witness:
  "preprocess_image cv_stub [[[7, 7, 7]]] = Inr black \<and>
   extractor_stub (expand_dims black) = Inr () \<and> selector_stub () = Inr () \<and>
   classifier_stub [7 / 10, 3 / 10] () = Inr ([7 / 10, 3 / 10] # []) \<and>
   snd (predict_image_class cv_stub [[[7, 7, 7]]] extractor_stub selector_stub
          (classifier_stub [7 / 10, 3 / 10]))
     = Inr [(''Glioma'', 7 / 10), (''Meningioma'', 3 / 10)] \<and>
   \<not> set CLASS_NAMES \<subseteq> set (keys (zip CLASS_NAMES [7 / 10, 3 / 10 :: real]))"
proof -
  have h: "preprocess_image cv_stub [[[7, 7, 7]]] = Inr black"
    "extractor_stub (expand_dims black) = Inr ()" "selector_stub () = Inr ()"
    "classifier_stub [7 / 10, 3 / 10] () = Inr ([7 / 10, 3 / 10] # [])"
    by (simp_all add: preprocess_stub_grey extractor_stub_def selector_stub_def classifier_stub_def)
  show ?thesis
    using predict_image_class_zip_truncates [where feature_extractor = extractor_stub and
        feature_selector = selector_stub and classifier = "classifier_stub [7 / 10, 3 / 10]", OF h] h
    by (simp add: CLASS_NAMES_def)
qed

text \<open>
  C1. For an image that the preprocessing accepts and models that answer, with a classifier
  that returns four probabilities, \<open>predict_image_class\<close> preprocesses the image, calls the
  three models once each in order and returns a mapping whose keys are the four class
  names in their fixed order and whose values are the classifier's probabilities, the
  \<open>i\<close>-th name carrying the \<open>i\<close>-th probability; each value is a probability when the
  classifier's outputs are.
\<close>

theorem predict_image_class_distribution:
  assumes "preprocess_image cv img = Inr x" "feature_extractor (expand_dims x) = Inr f"
    "feature_selector f = Inr s" "classifier s = Inr (probs # others)"
    and four: "length probs = 4" and unit: "list_all (\<lambda>p. 0 \<le> p \<and> p \<le> 1) probs"
  shows "\<exists>d. predict_image_class cv img feature_extractor feature_selector classifier
               = ([FeatureExtractorPredict, FeatureSelectorTransform, ClassifierPredictProba], Inr d) \<and>
             keys d = CLASS_NAMES \<and> map snd d = probs \<and>
             (\<forall>i<4. dict_get d (CLASS_NAMES ! i) = Some (probs ! i)) \<and>
             (\<forall>k v. dict_get d k = Some v \<longrightarrow> 0 \<le> v \<and> v \<le> 1)"
proof -
  let ?d = "zip CLASS_NAMES probs"
  have "dict_get ?d (CLASS_NAMES ! i) = Some (probs ! i)" if "i < 4" for i
    using dict_get_class_zip [of i probs] that four by (simp add: dict_class_zip)
  moreover have "0 \<le> v \<and> v \<le> 1" if "dict_get ?d k = Some v" for k v
  proof -
    from that have "(k, v) \<in> set ?d" by (auto simp: dict_get_def dest: map_of_SomeD)
    then have "v \<in> set probs" by (rule set_zip_rightD)
    with unit show ?thesis by (simp add: list_all_iff)
  qed
  ultimately show ?thesis
    using predict_image_class_ok [where feature_extractor = feature_extractor and
        feature_selector = feature_selector and classifier = classifier, OF assms(1-4)]
      zip_class_names_full [OF four]
    by blast
qed

theorem predict_image_class_distribution_witness:
  "preprocess_image cv_stub [[[7, 7, 7]]] = Inr black \<and>
   extractor_stub (expand_dims black) = Inr () \<and> selector_stub () = Inr () \<and>
   classifier_stub [1 / 10, 2 / 10, 3 / 10, 4 / 10] () = Inr ([1 / 10, 2 / 10, 3 / 10, 4 / 10] # []) \<and>
   length [1 / 10, 2 / 10, 3 / 10, 4 / 10 :: real] = 4 \<and>
   list_all (\<lambda>p. 0 \<le> p \<and> p \<le> 1) [1 / 10, 2 / 10, 3 / 10, 4 / 10 :: real] \<and>
   predict_image_class cv_stub [[[7, 7, 7]]] extractor_stub selector_stub
     (classifier_stub [1 / 10, 2 / 10, 3 / 10, 4 / 10])
   = ([FeatureExtractorPredict, FeatureSelectorTransform, ClassifierPredictProba],
      Inr [(''Glioma'', 1 / 10), (''Meningioma'', 2 / 10), (''No Tumor'', 3 / 10),
           (''Pituitary'', 4 / 10)])"
proof -
  let ?probs = "[1 / 10, 2 / 10, 3 / 10, 4 / 10 :: real]"
  have h: "preprocess_image cv_stub [[[7, 7, 7]]] = Inr black"
    "extractor_stub (expand_dims black) = Inr ()" "selector_stub () = Inr ()"
    "classifier_stub ?probs () = Inr (?probs # [])"
    "length ?probs = 4" "list_all (\<lambda>p. 0 \<le> p \<and> p \<le> 1) ?probs"
    by (simp_all add: preprocess_stub_grey extractor_stub_def selector_stub_def classifier_stub_def)
  from predict_image_class_distribution [where feature_extractor = extractor_stub and
      feature_selector = selector_stub and classifier = "classifier_stub ?probs", OF h]
  obtain d where d: "predict_image_class cv_stub [[[7, 7, 7]]] extractor_stub selector_stub
      (classifier_stub ?probs)
      = ([FeatureExtractorPredict, FeatureSelectorTransform, ClassifierPredictProba], Inr d)"
    "keys d = CLASS_NAMES" "map snd d = ?probs"
    by (elim exE conjE)
  have "d = zip (map fst d) (map snd d)" by (simp add: zip_map_fst_snd)
  then have "d = zip CLASS_NAMES ?probs" using d(2,3) by (simp add: keys_def)
  then show ?thesis using d(1) h by (simp add: CLASS_NAMES_def)
qed

section \<open>Shape and range of the preprocessed image\<close>

lemma has_shape_flat: "has_shape h w c a \<Longrightarrow> 0 < h \<Longrightarrow> 0 < w \<Longrightarrow> 0 < c \<Longrightarrow> flat a \<noteq> []"
proof -
  assume s: "has_shape h w c a" and pos: "0 < h" "0 < w" "0 < c"
  then obtain row rest where a: "a = row # rest" by (cases a) (auto simp: has_shape_def)
  with s pos obtain px rest' where row: "row = px # rest'" by (cases row) (auto simp: has_shape_def)
  with s a pos have "px \<noteq> []" by (auto simp: has_shape_def)
  then show ?thesis by (simp add: a row flat_def)
qed

lemma has_shape_plane:
  "has_shape h w c a \<Longrightarrow> map length q = map length a \<Longrightarrow> plane_shape h w q"
proof -
  assume s: "has_shape h w c a" and l: "map length q = map length a"
  from l have "length q = length a" by (rule map_eq_imp_length_eq)
  moreover have "length row = w" if "row \<in> set q" for row
  proof -
    from that have "length row \<in> set (map length a)" unfolding l [symmetric] by simp
    with s show ?thesis by (auto simp: has_shape_def list_all_iff)
  qed
  ultimately show ?thesis using s by (simp add: plane_shape_def has_shape_def list_all_iff)
qed

lemma merge3_shape:
  assumes "plane_shape h w q0" "plane_shape h w q1" "plane_shape h w q2"
  shows "has_shape h w 3 (merge3 q0 q1 q2)"
proof -
  have "length (merge3 q0 q1 q2) = h"
    using assms by (simp add: merge3_def plane_shape_def)
  moreover have "length row = w \<and> list_all (\<lambda>px. length px = 3) row"
    if "row \<in> set (merge3 q0 q1 q2)" for row
  proof -
    from that obtain r0 r1 r2 where r: "(r0, r1, r2) \<in> set (zip q0 (zip q1 q2))"
      "row = map (\<lambda>(a, b, c). [a, b, c]) (zip r0 (zip r1 r2))"
      by (auto simp: merge3_def)
    from r(1) have "r0 \<in> set q0" "r1 \<in> set q1" "r2 \<in> set q2"
      by (auto dest: set_zip_leftD set_zip_rightD)
    with assms have "length r0 = w" "length r1 = w" "length r2 = w"
      by (auto simp: plane_shape_def list_all_iff)
    then show ?thesis by (auto simp: r(2) list_all_iff)
  qed
  ultimately show ?thesis by (simp add: has_shape_def list_all_iff)
qed

lemma unit_range: "list_all (\<lambda>x. 0 \<le> x \<and> x \<le> 1) (flat (map3 (\<lambda>v. real (unat (v::uint8)) / 255) a))"
proof -
  have "real (unat v) / 255 \<le> 1" for v :: uint8
  proof -
    have "unat v < 256" using unsigned_less [of v, where 'a = nat] by simp
    then have "real (unat v) \<le> real 255" by (intro of_nat_mono) simp
    then show ?thesis by (simp del: of_nat_unat)
  qed
  then show ?thesis by (simp add: flat_map3 list_all_iff del: of_nat_unat)
qed

lemma real_standardize_ok: "\<exists>b. real_standardize a = Inr b"
  by (simp only: real_standardize_eq np_divide_std) blast

lemma real_rescale_ok: "flat a \<noteq> [] \<Longrightarrow> \<exists>b. real_rescale a = Inr b"
proof -
  assume ne: "flat a \<noteq> []"
  then obtain p where p: "np_ptp a = Inr p" by (simp add: np_ptp_def)
  from ne obtain lo where lo: "np_min a = Inr lo" by (simp add: np_min_def)
  show ?thesis
    by (simp only: real_rescale_eq p lo sum.case np_divide_pos [OF ptp_divisor_pos [OF p]]) blast
qed

lemma preprocess_image_returns:
  assumes r: "resize cv image_in IMG_SIZE = Inr r" and shape: "has_shape 224 224 3 r"
    and keeps: "clahe_keeps_shape cv" and succeeds: "clahe_succeeds cv"
  shows "\<exists>out. preprocess_image cv image_in = Inr out \<and> has_shape 224 224 3 out \<and>
           list_all (\<lambda>x. 0 \<le> x \<and> x \<le> 1) (flat out)"
proof -
  have s0: "has_shape 224 224 3 (astype_float32 r)"
    using shape by (simp add: astype_float32_def has_shape_map3)
  obtain img1 where img1: "real_standardize (astype_float32 r) = Inr img1"
    using real_standardize_ok by blast
  have s1: "has_shape 224 224 3 img1"
    using real_standardize_shape [OF img1] s0 by simp
  obtain img2 where img2: "real_rescale img1 = Inr img2"
    using real_rescale_ok [OF has_shape_flat [OF s1]] by auto
  let ?img = "astype_uint8 (np_multiply img2 255)"
  let ?cl = "createCLAHE 0.02 (8, 8)"
  have s3: "has_shape 224 224 3 ?img"
    using real_rescale_shape [OF img2] s1 by (simp add: quantized_shape)
  note px = has_shape_pixels [OF s3]
  obtain q0 where q0: "clahe_apply cv ?cl (map (map (\<lambda>px. px ! 0)) ?img) = Inr q0"
    using succeeds unfolding clahe_succeeds_def by blast
  obtain q1 where q1: "clahe_apply cv ?cl (map (map (\<lambda>px. px ! 1)) ?img) = Inr q1"
    using succeeds unfolding clahe_succeeds_def by blast
  obtain q2 where q2: "clahe_apply cv ?cl (map (map (\<lambda>px. px ! 2)) ?img) = Inr q2"
    using succeeds unfolding clahe_succeeds_def by blast
  have len: "map length q = map length ?img"
    if "clahe_apply cv ?cl (map (map (\<lambda>px. px ! i)) ?img) = Inr q" for i q
    using keeps that unfolding clahe_keeps_shape_def by fastforce
  have planes: "plane_shape 224 224 q0" "plane_shape 224 224 q1" "plane_shape 224 224 q2"
    using has_shape_plane [OF s3 len [OF q0]] has_shape_plane [OF s3 len [OF q1]]
      has_shape_plane [OF s3 len [OF q2]] by simp_all
  have loop: "clahe_loop cv ?cl ?img [0..<3] (zeros_like ?img) = Inr (merge3 q0 q1 q2)"
    by (simp only: clahe_loop_merge [OF px keeps] split3_ok [OF px] and_then_def q0 q1 q2
        sum.case prod.case)
  let ?out = "map3 (\<lambda>v. real (unat v) / 255) (merge3 q0 q1 q2)"
  have "preprocess_image cv image_in = np_divide (astype_float32 (merge3 q0 q1 q2)) 255"
    by (simp only: preprocess_image_chain r img1 img2 loop and_then_def sum.case)
  then have "preprocess_image cv image_in = Inr ?out"
    by (simp add: np_divide_def astype_float32_def map3_map3 comp_def)
  moreover have "has_shape 224 224 3 ?out"
    using merge3_shape [OF planes] by (simp add: has_shape_map3)
  ultimately show ?thesis using unit_range by blast
qed

text \<open>
  C3. For an input image of any dimensions that the resize accepts, \<open>preprocess_image\<close>
  returns an array of 224 rows of 224 pixels of 3 values, of the float type, and every
  value lies between 0 and 1. The resize is asked to return the 224 by 224 three-channel
  image it is called for, and the equalizer to return a plane of the shape it was given.
  The last step divides 8-bit values by 255, so the bounds hold without any overshoot.
\<close>

theorem preprocess_image_shape_and_range:
  assumes "resize cv image_in IMG_SIZE = Inr r" and "has_shape 224 224 3 r"
    and "clahe_keeps_shape cv" and "clahe_succeeds cv"
  shows "\<exists>out. preprocess_image cv image_in = Inr out \<and> has_shape 224 224 3 out \<and>
           list_all (\<lambda>x. 0 \<le> x \<and> x \<le> 1) (flat out)"
  by (rule preprocess_image_returns [OF assms])

theorem preprocess_image_shape_and_range_witness:
  "resize cv_stub [[[10, 20, 30], [40, 50, 60]]] IMG_SIZE = Inr (replicate 224 (replicate 224 [10, 20, 30])) \<and>
   has_shape 224 224 3 (replicate 224 (replicate 224 [10, 20, 30 :: uint8])) \<and>
   clahe_keeps_shape cv_stub \<and> clahe_succeeds cv_stub \<and>
   (\<exists>out. preprocess_image cv_stub [[[10, 20, 30], [40, 50, 60]]] = Inr out \<and>
      has_shape 224 224 3 out \<and> list_all (\<lambda>x. 0 \<le> x \<and> x \<le> 1) (flat out))"
proof -
  have h: "resize cv_stub [[[10, 20, 30], [40, 50, 60]]] IMG_SIZE
             = Inr (replicate 224 (replicate 224 [10, 20, 30]))"
    "has_shape 224 224 3 (replicate 224 (replicate 224 [10, 20, 30 :: uint8]))"
    by (simp_all add: cv_stub_def resize_fill_def IMG_SIZE_def has_shape_def list_all_iff)
  show ?thesis
    using preprocess_image_shape_and_range [OF h clahe_stub_keeps_shape clahe_stub_succeeds] h
      clahe_stub_keeps_shape clahe_stub_succeeds
    by simp
qed

section \<open>A uniform image\<close>

text \<open>
  C5. When the resized image is uniform (every value of every channel is the same), the
  global standard deviation is 0 and the global range of the standardized image is 0.
  Both divisors are then the added \<open>1e-8\<close>, which is not 0: both divisions are defined,
  both give the all-zero array, and \<open>preprocess_image\<close> goes on to the equalization of the
  all-zero image and the final division by 255.
\<close>

theorem preprocess_uniform_divisions_defined:
  assumes "resize cv image_in IMG_SIZE = Inr r" and "uniform r v"
  shows "(let img0 = astype_float32 r; z = map3 (\<lambda>_. 0) img0 in
          np_std img0 = 0 \<and> np_std img0 + 0.00000001 \<noteq> 0 \<and>
          np_divide (np_subtract img0 (np_mean img0)) (np_std img0 + 0.00000001) = Inr z \<and>
          np_min z = Inr 0 \<and> np_ptp z = Inr 0 \<and>
          np_divide (np_subtract z 0) (0 + 0.00000001) = Inr z) \<and>
         preprocess_image cv image_in =
           and_then (clahe_loop cv (createCLAHE 0.02 (8, 8)) (zeros_like r) [0..<3] (zeros_like r))
             (\<lambda>c. np_divide (astype_float32 c) 255)"
proof -
  let ?a = "astype_float32 r"
  have ua: "uniform ?a (real (unat v))"
    unfolding astype_float32_def by (rule uniform_map3 [OF assms(2)])
  have ne: "flat ?a \<noteq> []" using ua by (simp add: uniform_def)
  have "np_std ?a = 0" by (rule uniform_std [OF ua])
  moreover have "np_std ?a + 0.00000001 \<noteq> 0" using std_divisor_pos [of ?a] by simp
  moreover note uniform_standardized [OF ua] zero_rescaled(1-3) [OF ne]
    preprocess_uniform [OF assms]
  ultimately show ?thesis unfolding Let_def by blast
qed

theorem preprocess_uniform_divisions_defined_witness:
  "resize cv_stub [[[7, 7, 7]]] IMG_SIZE = Inr (replicate 224 (replicate 224 [7, 7, 7])) \<and>
   uniform (replicate 224 (replicate 224 [7, 7, 7 :: uint8])) 7 \<and>
   np_std (astype_float32 (replicate 224 (replicate 224 [7, 7, 7]))) = 0 \<and>
   preprocess_image cv_stub [[[7, 7, 7]]] = Inr black"
proof -
  have u: "uniform (replicate 224 (replicate 224 [7, 7, 7 :: uint8])) 7"
    using uniform_replicate [of 224 224 3 "7 :: uint8"] by (simp add: numeral_3_eq_3)
  show ?thesis
    using preprocess_uniform_divisions_defined [OF resize_stub u] resize_stub [of "[7, 7, 7]"] u
      preprocess_stub_grey [of 7]
    by (simp add: Let_def)
qed

section \<open>The upload handler: the reported class, failures, channel order\<close>

lemma predicted_class_first_argmax:
  assumes four: "length probs = 4"
  shows "\<exists>i<4. py_max (dict_get (zip CLASS_NAMES probs)) (keys (zip CLASS_NAMES probs))
                  = Inr (CLASS_NAMES ! i) \<and>
               (\<forall>j<4. probs ! j \<le> probs ! i) \<and> (\<forall>j<i. probs ! j < probs ! i)"
proof -
  let ?d = "zip CLASS_NAMES probs"
  have k: "keys ?d = CLASS_NAMES" using zip_class_names_full [OF four] by simp
  have g: "dict_get ?d (CLASS_NAMES ! j) = Some (probs ! j)" if "j < 4" for j
    using dict_get_class_zip [of j probs] that four by (simp add: dict_class_zip)
  have "CLASS_NAMES \<noteq> []" by (simp add: CLASS_NAMES_def)
  from py_max_first [OF this, of "dict_get ?d"] obtain i where i: "i < 4"
    "py_max (dict_get ?d) CLASS_NAMES = Inr (CLASS_NAMES ! i)"
    "\<forall>j<4. dict_get ?d (CLASS_NAMES ! j) \<le> dict_get ?d (CLASS_NAMES ! i)"
    "\<forall>j<i. dict_get ?d (CLASS_NAMES ! j) < dict_get ?d (CLASS_NAMES ! i)"
    by (auto simp: length_CLASS_NAMES)
  have "\<forall>j<4. probs ! j \<le> probs ! i" using i(1,3) g by fastforce
  moreover have "\<forall>j<i. probs ! j < probs ! i" using i(1,4) g by fastforce
  ultimately show ?thesis using i(1,2) k by auto
qed

lemma handler_success:
  assumes "imdecode cv file_bytes = Inr img" "cvtColor_BGR2RGB img = Inr img_rgb"
    "preprocess_image cv img_rgb = Inr x" "feature_extractor (expand_dims x) = Inr f"
    "feature_selector f = Inr s" "classifier s = Inr (probs # others)"
    and four: "length probs = 4"
    and best: "py_max (dict_get (zip CLASS_NAMES probs)) (keys (zip CLASS_NAMES probs))
                 = Inr (CLASS_NAMES ! i)" "i < 4"
  shows "handler cv feature_extractor feature_selector classifier (Some file_bytes) =
     ([Markdown ''MRI Scan Preview'', Image img_rgb 230, Markdown ''Classification Confidence'',
       Pyplot probs CLASS_NAMES, Diagnosis (CLASS_NAMES ! i) (probs ! i * 100)],
      [FeatureExtractorPredict, FeatureSelectorTransform, ClassifierPredictProba])"
  using assms(1,2) best(1)
  by (simp add: handler_def try_body_def
      predict_image_class_ok [where feature_extractor = feature_extractor and
        feature_selector = feature_selector and classifier = classifier, OF assms(3-6)]
      getitems_class_zip [OF four] dict_getitem_class_zip [OF best(2) four])

text \<open>
  C4. The class the page reports is the arg-max of the returned distribution, and among
  equal maxima the first in the order of \<open>CLASS_NAMES\<close> wins: its probability is at
  least every other and strictly greater than every earlier one. The diagnosis box, the
  last thing rendered, names that class with its probability times 100.
\<close>

theorem predicted_class_is_first_argmax:
  assumes "imdecode cv file_bytes = Inr img" "cvtColor_BGR2RGB img = Inr img_rgb"
    "preprocess_image cv img_rgb = Inr x" "feature_extractor (expand_dims x) = Inr f"
    "feature_selector f = Inr s" "classifier s = Inr (probs # others)"
    and four: "length probs = 4"
  shows "\<exists>i<4. (\<forall>j<4. probs ! j \<le> probs ! i) \<and> (\<forall>j<i. probs ! j < probs ! i) \<and>
           py_max (dict_get (zip CLASS_NAMES probs)) (keys (zip CLASS_NAMES probs))
             = Inr (CLASS_NAMES ! i) \<and>
           last (fst (handler cv feature_extractor feature_selector classifier (Some file_bytes)))
             = Diagnosis (CLASS_NAMES ! i) (probs ! i * 100)"
proof -
  from predicted_class_first_argmax [OF four] obtain i where i: "i < 4"
    "py_max (dict_get (zip CLASS_NAMES probs)) (keys (zip CLASS_NAMES probs)) = Inr (CLASS_NAMES ! i)"
    "\<forall>j<4. probs ! j \<le> probs ! i" "\<forall>j<i. probs ! j < probs ! i"
    by blast
  have "last (fst (handler cv feature_extractor feature_selector classifier (Some file_bytes)))
          = Diagnosis (CLASS_NAMES ! i) (probs ! i * 100)"
    by (simp add: handler_success [where feature_extractor = feature_extractor and
          feature_selector = feature_selector and classifier = classifier,
          OF assms(1-6) four i(2,1)])
  with i show ?thesis by blast
qed


theorem predicted_class_is_first_argmax_witness:
  "imdecode cv_stub [7, 7, 7] = Inr (Some [[[7, 7, 7]]]) \<and>
   cvtColor_BGR2RGB (Some [[[7, 7, 7]]]) = Inr [[[7, 7, 7]]] \<and>
   preprocess_image cv_stub [[[7, 7, 7]]] = Inr black \<and>
   extractor_stub (expand_dims black) = Inr () \<and> selector_stub () = Inr () \<and>
   classifier_stub [2 / 10, 4 / 10, 4 / 10, 0] () = Inr ([2 / 10, 4 / 10, 4 / 10, 0] # []) \<and>
   length [2 / 10, 4 / 10, 4 / 10, 0 :: real] = 4 \<and>
   last (fst (handler cv_stub extractor_stub selector_stub
                (classifier_stub [2 / 10, 4 / 10, 4 / 10, 0]) (Some [7, 7, 7])))
     = Diagnosis ''Meningioma'' 40"
proof -
  let ?probs = "[2 / 10, 4 / 10, 4 / 10, 0 :: real]"
  have h: "imdecode cv_stub [7, 7, 7] = Inr (Some [[[7, 7, 7]]])"
    "cvtColor_BGR2RGB (Some [[[7, 7, 7]]]) = Inr [[[7, 7, 7]]]"
    "preprocess_image cv_stub [[[7, 7, 7]]] = Inr black"
    "extractor_stub (expand_dims black) = Inr ()" "selector_stub () = Inr ()"
    "classifier_stub ?probs () = Inr (?probs # [])" "length ?probs = 4"
    by (simp_all add: cv_stub_def imdecode_raw_def cvtColor_BGR2RGB_def flat_def
        preprocess_stub_grey [unfolded cv_stub_def] extractor_stub_def selector_stub_def
        classifier_stub_def)
  from predicted_class_is_first_argmax [where feature_extractor = extractor_stub and
      feature_selector = selector_stub and classifier = "classifier_stub ?probs", OF h]
  obtain i where i: "i < 4" "\<forall>j<4. ?probs ! j \<le> ?probs ! i" "\<forall>j<i. ?probs ! j < ?probs ! i"
    "last (fst (handler cv_stub extractor_stub selector_stub (classifier_stub ?probs)
       (Some [7, 7, 7]))) = Diagnosis (CLASS_NAMES ! i) (?probs ! i * 100)"
    by (elim exE conjE)
  from i(1) consider "i = 0" | "i = 1" | "i = 2" | "i = 3" by linarith
  then have "i = 1"
  proof cases
    case 1
    with i(2) [rule_format, of 1] show ?thesis by simp
  next
    case 2
    then show ?thesis .
  next
    case 3
    with i(3) [rule_format, of 1] show ?thesis by simp
  next
    case 4
    with i(2) [rule_format, of 1] show ?thesis by simp
  qed
  with i(4) h show ?thesis by (simp add: CLASS_NAMES_def)
qed

text \<open>
  An exception raised later, while the page is being rendered, is caught by the same
  \<^verbatim>\<open>except\<close>, after the preview has been shown: with three probabilities the chart's
  values cannot be read.
\<close>

lemma handler_missing_class:
  assumes "imdecode cv file_bytes = Inr img" "cvtColor_BGR2RGB img = Inr img_rgb"
    "preprocess_image cv img_rgb = Inr x" "feature_extractor (expand_dims x) = Inr f"
    "feature_selector f = Inr s" "classifier s = Inr ([a, b, c] # others)"
  shows "handler cv feature_extractor feature_selector classifier (Some file_bytes) =
     ([Markdown ''MRI Scan Preview'', Image img_rgb 230, Markdown ''Classification Confidence'',
       Error (''Error processing image: '' @ str (KeyError ''Pituitary''))],
      [FeatureExtractorPredict, FeatureSelectorTransform, ClassifierPredictProba])"
  using assms(1,2)
  by (simp add: handler_def try_body_def
      predict_image_class_ok [where feature_extractor = feature_extractor and
        feature_selector = feature_selector and classifier = classifier, OF assms(3-6)]
      py_max_def keys_def CLASS_NAMES_def dict_getitem_def)

lemma cvtColor_three_channels:
  assumes "has_shape h w 3 bgr" "0 < h" "0 < w"
  shows "cvtColor_BGR2RGB (Some bgr) = Inr (map (map rev) bgr)"
proof -
  have ne: "flat bgr \<noteq> []" by (rule has_shape_flat [OF assms]) simp
  have px: "length px = 3" if "row \<in> set bgr" "px \<in> set row" for row px
    using assms(1) that by (auto simp: has_shape_def list_all_iff)
  then have "list_all (list_all (\<lambda>px. length px \<in> {3, 4})) bgr"
    by (auto simp: list_all_iff)
  moreover have "map (map (\<lambda>px. rev (take 3 px))) bgr = map (map rev) bgr"
    using px by (auto intro!: map_cong)
  ultimately show ?thesis using ne by (simp add: cvtColor_BGR2RGB_def)
qed

lemma handler_calls:
  assumes "imdecode cv file_bytes = Inr img" "cvtColor_BGR2RGB img = Inr img_rgb"
  shows "snd (handler cv feature_extractor feature_selector classifier (Some file_bytes))
           = fst (predict_image_class cv img_rgb feature_extractor feature_selector classifier)"
  using assms by (auto simp: handler_def try_body_def Let_def split: sum.splits prod.splits)

lemma handler_image_event:
  assumes "imdecode cv file_bytes = Inr img" "cvtColor_BGR2RGB img = Inr img_rgb"
    and "Image raster width \<in> set (fst (handler cv feature_extractor feature_selector classifier
            (Some file_bytes)))"
  shows "raster = img_rgb \<and> width = 230"
  using assms by (auto simp: handler_def try_body_def Let_def split: sum.splits prod.splits)

lemma handler_shows_image:
  assumes "imdecode cv file_bytes = Inr img" "cvtColor_BGR2RGB img = Inr img_rgb"
    and "snd (predict_image_class cv img_rgb feature_extractor feature_selector classifier) = Inr d"
    and "d \<noteq> []"
  shows "Image img_rgb 230 \<in> set (fst (handler cv feature_extractor feature_selector classifier
            (Some file_bytes)))"
proof -
  from assms(4) obtain k rest where "keys d = k # rest" by (cases d) (auto simp: keys_def)
  then obtain c where "py_max (dict_get d) (keys d) = Inr c" by (simp add: py_max_def)
  with assms(1-3) show ?thesis
    by (auto simp: handler_def try_body_def Let_def split: sum.splits prod.splits)
qed

text \<open>
  C8. The decoder returns blue-green-red pixels. The handler reverses each pixel to
  red-green-blue, runs the pipeline on that raster, and every image the page shows is that
  same raster; it is shown whenever the pipeline returns a distribution.
\<close>

theorem channel_order_decoded_to_display:
  assumes dec: "imdecode cv file_bytes = Inr (Some bgr)"
    and shape: "has_shape h w 3 bgr" and pos: "0 < h" "0 < w"
  shows "cvtColor_BGR2RGB (Some bgr) = Inr (map (map rev) bgr) \<and>
         (\<forall>y<h. \<forall>x<w. \<exists>b g r. bgr ! y ! x = [b, g, r] \<and> map (map rev) bgr ! y ! x = [r, g, b]) \<and>
         snd (handler cv feature_extractor feature_selector classifier (Some file_bytes))
           = fst (predict_image_class cv (map (map rev) bgr) feature_extractor feature_selector
                    classifier) \<and>
         (\<forall>raster width.
            Image raster width \<in> set (fst (handler cv feature_extractor feature_selector classifier
               (Some file_bytes))) \<longrightarrow> raster = map (map rev) bgr) \<and>
         ((\<exists>d. snd (predict_image_class cv (map (map rev) bgr) feature_extractor feature_selector
                       classifier) = Inr d \<and> d \<noteq> []) \<longrightarrow>
            Image (map (map rev) bgr) 230 \<in> set (fst (handler cv feature_extractor feature_selector
               classifier (Some file_bytes))))"
proof -
  note cvt = cvtColor_three_channels [OF shape pos]
  have pixel: "\<exists>b g r. bgr ! y ! x = [b, g, r] \<and> map (map rev) bgr ! y ! x = [r, g, b]"
    if "y < h" "x < w" for y x
  proof -
    from shape that have y: "y < length bgr" by (simp add: has_shape_def)
    then have row: "bgr ! y \<in> set bgr" by simp
    with shape that have x: "x < length (bgr ! y)" by (auto simp: has_shape_def list_all_iff)
    then have "bgr ! y ! x \<in> set (bgr ! y)" by simp
    with shape row have "length (bgr ! y ! x) = 3"
      by (auto simp: has_shape_def list_all_iff)
    then obtain b g r where "bgr ! y ! x = [b, g, r]"
      by (auto simp: length_Suc_conv eval_nat_numeral)
    then show ?thesis using y x by simp
  qed
  show ?thesis
    using cvt pixel
      handler_calls [where feature_extractor = feature_extractor and
        feature_selector = feature_selector and classifier = classifier, OF dec cvt]
      handler_image_event [where feature_extractor = feature_extractor and
        feature_selector = feature_selector and classifier = classifier, OF dec cvt]
      handler_shows_image [where feature_extractor = feature_extractor and
        feature_selector = feature_selector and classifier = classifier, OF dec cvt]
    by blast
qed

theorem channel_order_decoded_to_display_witness:
  "imdecode cv_stub [1, 2, 3] = Inr (Some [[[1, 2, 3]]]) \<and>
   has_shape 1 1 3 [[[1, 2, 3 :: uint8]]] \<and>
   cvtColor_BGR2RGB (Some [[[1, 2, 3]]]) = Inr [[[3, 2, 1]]] \<and>
   Image [[[3, 2, 1]]] 230 \<in> set (fst (handler cv_stub extractor_stub selector_stub
      (classifier_stub [1 / 4, 1 / 4, 1 / 4, 1 / 4]) (Some [1, 2, 3])))"
proof -
  let ?clf = "classifier_stub [1 / 4, 1 / 4, 1 / 4, 1 / 4]"
  have h: "imdecode cv_stub [1, 2, 3] = Inr (Some [[[1, 2, 3]]])"
    "has_shape 1 1 3 [[[1, 2, 3 :: uint8]]]" "0 < (1::nat)" "0 < (1::nat)"
    by (simp_all add: cv_stub_def imdecode_raw_def has_shape_def)
  have "has_shape 224 224 3 (replicate 224 (replicate 224 [3, 2, 1 :: uint8]))"
    by (simp add: has_shape_def list_all_iff)
  from preprocess_image_returns [OF resize_stub this clahe_stub_keeps_shape clahe_stub_succeeds]
  obtain out where out: "preprocess_image cv_stub [[[3, 2, 1]]] = Inr out" by blast
  have "snd (predict_image_class cv_stub [[[3, 2, 1]]] extractor_stub selector_stub ?clf)
          = Inr (zip CLASS_NAMES [1 / 4, 1 / 4, 1 / 4, 1 / 4])"
    by (simp add: predict_image_class_ok [where feature_extractor = extractor_stub and
          feature_selector = selector_stub and classifier = ?clf and f = "()" and s = "()",
          OF out] extractor_stub_def selector_stub_def classifier_stub_def)
  then have d: "\<exists>d. snd (predict_image_class cv_stub (map (map rev) [[[1, 2, 3]]]) extractor_stub
      selector_stub ?clf) = Inr d \<and> d \<noteq> []"
    by (simp add: CLASS_NAMES_def)
  show ?thesis
    using channel_order_decoded_to_display [where feature_extractor = extractor_stub and
        feature_selector = selector_stub and classifier = ?clf, OF h] d h
    by simp
qed

section \<open>Arrays in the store: what the preprocessing writes\<close>

lemma clahe_loop_store_eq:
  assumes "img \<noteq> acc" "img < length st" "acc < length st" "st ! acc = U8 accv"
  shows "clahe_loop_store cv cl st img idxs acc =
           (case clahe_loop cv cl (u8 (st ! img)) idxs accv of
              Inl e \<Rightarrow> Inl e
            | Inr a \<Rightarrow> Inr (st[acc := U8 a]))"
  using assms
proof (induction idxs arbitrary: st accv)
  case Nil
  then show ?case by (simp add: list_update_same_conv [THEN iffD2])
next
  case (Cons i idxs)
  show ?case
  proof (cases "get_channel (u8 (st ! img)) i")
    case (Inl e)
    then show ?thesis by simp
  next
    case ch: (Inr ch)
    show ?thesis
    proof (cases "clahe_apply cv cl ch")
      case (Inl e)
      then show ?thesis using ch by simp
    next
      case out: (Inr out)
      show ?thesis
      proof (cases "set_channel accv i out")
        case (Inl e)
        then show ?thesis using ch out Cons.prems by simp
      next
        case w: (Inr written)
        have "clahe_loop_store cv cl (st[acc := U8 written]) img idxs acc =
           (case clahe_loop cv cl (u8 (st[acc := U8 written] ! img)) idxs written of
              Inl e \<Rightarrow> Inl e
            | Inr a \<Rightarrow> Inr (st[acc := U8 written, acc := U8 a]))"
          using Cons.prems by (intro Cons.IH) simp_all
        then show ?thesis using ch out w Cons.prems by (simp split: sum.splits)
      qed
    qed
  qed
qed


lemma clahe_loop_store_fresh:
  assumes "img \<noteq> acc" "img < length st" "acc < length st" "st ! acc = U8 (u8 (st ! acc))"
  shows "clahe_loop_store cv cl st img idxs acc =
           (case clahe_loop cv cl (u8 (st ! img)) idxs (u8 (st ! acc)) of
              Inl e \<Rightarrow> Inl e
            | Inr a \<Rightarrow> Inr (st[acc := U8 a]))"
  by (rule clahe_loop_store_eq [OF assms])

lemma np_divide_255: "np_divide a 255 = Inr (map3 (\<lambda>x. x / 255) a)"
  by (simp add: np_divide_def)

lemma preprocess_image_store_eq:
  assumes "image_in < length st"
  shows "\<exists>allocated. length allocated = 10 \<and>
           preprocess_image_store cv st image_in =
             (case preprocess_image cv (u8 (st ! image_in)) of
                Inl e \<Rightarrow> Inl e
              | Inr a \<Rightarrow> Inr (st @ allocated @ [F32 a], length st + 10))"
proof -
  let ?image = "u8 (st ! image_in)"
  let ?ten = "replicate 10 (U8 [])"
  have failed: ?thesis
    if "preprocess_image_store cv st image_in = Inl e" "preprocess_image cv ?image = Inl e" for e
    using that by (intro exI [of _ ?ten]) simp
  show ?thesis
  proof (cases "resize cv ?image IMG_SIZE")
    case (Inl e)
    show ?thesis
      by (rule failed [of e]) (simp_all add: preprocess_image_store_def preprocess_image_def Inl)
  next
    case r: (Inr r)
    define img0 where "img0 = astype_float32 r"
    define img1 where "img1 = map3 (\<lambda>x. x / (np_std img0 + 0.00000001)) (np_subtract img0 (np_mean img0))"
    have d1: "np_divide (np_subtract img0 (np_mean img0)) (np_std img0 + 0.00000001) = Inr img1"
      unfolding img1_def by (rule np_divide_std)
    show ?thesis
    proof (cases "np_min img1")
      case (Inl e)
      show ?thesis
        using r d1 Inl
        by (intro failed [of e])
          (simp_all add: preprocess_image_store_def preprocess_image_def new_array_def Let_def
            nth_append img0_def [symmetric])
    next
      case lo: (Inr lo)
      from lo obtain p where p: "np_ptp img1 = Inr p"
        by (auto simp: np_min_def np_ptp_def split: if_splits)
      define img2 where "img2 = map3 (\<lambda>x. x / (p + 0.00000001)) (np_subtract img1 lo)"
      have d2: "np_divide (np_subtract img1 lo) (p + 0.00000001) = Inr img2"
        unfolding img2_def by (rule np_divide_pos [OF ptp_divisor_pos [OF p]])
      define img where "img = astype_uint8 (np_multiply img2 255)"
      show ?thesis
      proof (cases "clahe_loop cv (createCLAHE 0.02 (8, 8)) img [0..<3] (zeros_like img)")
        case (Inl e)
        show ?thesis
          using r d1 lo p d2 Inl
          by (intro failed [of e])
            (simp_all add: preprocess_image_store_def preprocess_image_def new_array_def Let_def
              nth_append img0_def [symmetric] img_def [symmetric] clahe_loop_store_fresh)
      next
        case c: (Inr c)
        show ?thesis
          using r d1 lo p d2 c
          by (intro exI [of _ "[U8 r, F32 img0, F32 (np_subtract img0 (np_mean img0)), F32 img1,
                F32 (np_subtract img1 lo), F32 img2, F32 (np_multiply img2 255), U8 img, U8 c,
                F32 (astype_float32 c)]"])
            (simp add: preprocess_image_store_def preprocess_image_def new_array_def Let_def
              nth_append img0_def [symmetric] img_def [symmetric] clahe_loop_store_fresh
              np_divide_255 list_update_append)
      qed
    qed
  qed
qed




section \<open>Two inferences on the same image\<close>

lemma predict_image_class_store_eq:
  assumes "image_in < length st"
  shows "\<exists>allocated.
           predict_image_class_store cv st image_in feature_extractor feature_selector classifier
             = (predict_image_class cv (u8 (st ! image_in)) feature_extractor feature_selector
                  classifier, st @ allocated)"
proof -
  from preprocess_image_store_eq [OF assms, of cv] obtain allocated where
    eq: "preprocess_image_store cv st image_in =
      (case preprocess_image cv (u8 (st ! image_in)) of
         Inl e \<Rightarrow> Inl e
       | Inr a \<Rightarrow> Inr (st @ allocated @ [F32 a], length st + 10))"
    and len: "length allocated = 10"
    by blast
  show ?thesis
  proof (cases "preprocess_image cv (u8 (st ! image_in))")
    case (Inl e)
    then show ?thesis
      using eq by (intro exI [of _ "[]"]) (simp add: predict_image_class_store_def predict_image_class_def)
  next
    case (Inr a)
    have "(st @ allocated @ [F32 a]) ! (length st + 10) = F32 a"
      using len by (simp add: nth_append)
    then show ?thesis
      using eq Inr
      by (intro exI [of _ "allocated @ [F32 a]"])
        (simp add: predict_image_class_store_def predict_image_class_def split: sum.splits list.splits)
  qed
qed

text \<open>
  C6. Two invocations of the inference on the identical image, with the same models, give
  identical results: the second, run in the store the first one left behind, returns the
  same model calls and the same distribution (or the same failure), and both equal
  \<open>predict_image_class\<close> on the image.
\<close>

theorem infer_twice_same_distribution:
  assumes "image_in < length st"
  shows "fst (infer_twice cv st image_in feature_extractor feature_selector classifier)
           = snd (infer_twice cv st image_in feature_extractor feature_selector classifier)
         \<and> fst (infer_twice cv st image_in feature_extractor feature_selector classifier)
           = predict_image_class cv (u8 (st ! image_in)) feature_extractor feature_selector
               classifier"
proof -
  from predict_image_class_store_eq [OF assms, where feature_extractor = feature_extractor and
      feature_selector = feature_selector and classifier = classifier and cv = cv]
  obtain a1 where first:
    "predict_image_class_store cv st image_in feature_extractor feature_selector classifier
       = (predict_image_class cv (u8 (st ! image_in)) feature_extractor feature_selector
            classifier, st @ a1)"
    by blast
  have again: "image_in < length (st @ a1)" using assms by simp
  from predict_image_class_store_eq [OF again, where feature_extractor = feature_extractor and
      feature_selector = feature_selector and classifier = classifier and cv = cv]
  obtain a2 where second:
    "predict_image_class_store cv (st @ a1) image_in feature_extractor feature_selector classifier
       = (predict_image_class cv (u8 ((st @ a1) ! image_in)) feature_extractor feature_selector
            classifier, (st @ a1) @ a2)"
    by blast
  have "(st @ a1) ! image_in = st ! image_in" using assms by (simp add: nth_append)
  with first second show ?thesis by (simp add: infer_twice_def)
qed


theorem infer_twice_same_distribution_witness:
  "0 < length [U8 [[[7, 7, 7]]]] \<and>
   fst (infer_twice cv_stub [U8 [[[7, 7, 7]]]] 0 extractor_stub selector_stub
          (classifier_stub [1 / 10, 2 / 10, 3 / 10, 4 / 10]))
   = snd (infer_twice cv_stub [U8 [[[7, 7, 7]]]] 0 extractor_stub selector_stub
          (classifier_stub [1 / 10, 2 / 10, 3 / 10, 4 / 10])) \<and>
   snd (infer_twice cv_stub [U8 [[[7, 7, 7]]]] 0 extractor_stub selector_stub
          (classifier_stub [1 / 10, 2 / 10, 3 / 10, 4 / 10]))
   = ([FeatureExtractorPredict, FeatureSelectorTransform, ClassifierPredictProba],
      Inr [(''Glioma'', 1 / 10), (''Meningioma'', 2 / 10), (''No Tumor'', 3 / 10),
           (''Pituitary'', 4 / 10)])"
proof -
  let ?clf = "classifier_stub [1 / 10, 2 / 10, 3 / 10, 4 / 10]"
  have h: "0 < length [U8 [[[7, 7, 7]]]]" by simp
  have p: "predict_image_class cv_stub [[[7, 7, 7]]] extractor_stub selector_stub ?clf
      = ([FeatureExtractorPredict, FeatureSelectorTransform, ClassifierPredictProba],
         Inr (zip CLASS_NAMES [1 / 10, 2 / 10, 3 / 10, 4 / 10]))"
    by (rule predict_image_class_ok [where f = "()" and s = "()" and x = black and others = "[]"])
      (simp_all add: preprocess_stub_grey extractor_stub_def selector_stub_def classifier_stub_def)
  note twice = infer_twice_same_distribution [OF h, where cv = cv_stub and
      feature_extractor = extractor_stub and feature_selector = selector_stub and
      classifier = ?clf]
  from twice have same: "fst (infer_twice cv_stub [U8 [[[7, 7, 7]]]] 0 extractor_stub selector_stub ?clf)
      = snd (infer_twice cv_stub [U8 [[[7, 7, 7]]]] 0 extractor_stub selector_stub ?clf)"
    by (rule conjunct1)
  from twice have "fst (infer_twice cv_stub [U8 [[[7, 7, 7]]]] 0 extractor_stub selector_stub ?clf)
      = predict_image_class cv_stub (u8 ([U8 [[[7, 7, 7]]]] ! 0)) extractor_stub selector_stub ?clf"
    by (rule conjunct2)
  also have "\<dots> = predict_image_class cv_stub [[[7, 7, 7]]] extractor_stub selector_stub ?clf"
    by simp
  also note p
  finally have "fst (infer_twice cv_stub [U8 [[[7, 7, 7]]]] 0 extractor_stub selector_stub ?clf)
      = ([FeatureExtractorPredict, FeatureSelectorTransform, ClassifierPredictProba],
         Inr (zip CLASS_NAMES [1 / 10, 2 / 10, 3 / 10, 4 / 10]))" .
  with same have "snd (infer_twice cv_stub [U8 [[[7, 7, 7]]]] 0 extractor_stub selector_stub ?clf)
      = ([FeatureExtractorPredict, FeatureSelectorTransform, ClassifierPredictProba],
         Inr (zip CLASS_NAMES [1 / 10, 2 / 10, 3 / 10, 4 / 10]))"
    by (rule subst)
  with same show ?thesis by (simp add: CLASS_NAMES_def)
qed

section \<open>Failures in the handler\<close>

lemma py_max_member: "py_max key xs = Inr c \<Longrightarrow> c \<in> set xs"
proof -
  assume r: "py_max key xs = Inr c"
  then have "xs \<noteq> []" by (auto simp: py_max_def)
  from py_max_first [OF this, of key] r show ?thesis by auto
qed

lemma dict_getitem_key: "c \<in> set (keys d) \<Longrightarrow> \<exists>v. dict_getitem d c = Inr v"
proof -
  assume "c \<in> set (keys d)"
  then have "c \<in> fst ` set d" by (simp add: keys_def)
  then have "map_of d c \<noteq> None" by (simp add: map_of_eq_None_iff)
  then show ?thesis by (auto simp: dict_getitem_def)
qed

lemma try_body_outcomes:
  "(\<exists>calls e. try_body cv feature_extractor feature_selector classifier file_bytes
       = ([], calls, Inl e)) \<or>
   (\<exists>img_rgb calls e. try_body cv feature_extractor feature_selector classifier file_bytes
       = ([Markdown ''MRI Scan Preview'', Image img_rgb 230,
           Markdown ''Classification Confidence''], calls, Inl e)) \<or>
   (\<exists>img_rgb values cls p calls. try_body cv feature_extractor feature_selector classifier file_bytes
       = ([Markdown ''MRI Scan Preview'', Image img_rgb 230,
           Markdown ''Classification Confidence'', Pyplot values CLASS_NAMES,
           Diagnosis cls p], calls, Inr ()))"
proof (cases "imdecode cv file_bytes")
  case (Inl e)
  then show ?thesis by (simp add: try_body_def)
next
  case img: (Inr img)
  show ?thesis
  proof (cases "cvtColor_BGR2RGB img")
    case (Inl e)
    then show ?thesis using img by (simp add: try_body_def)
  next
    case rgb: (Inr img_rgb)
    obtain calls res where p: "predict_image_class cv img_rgb feature_extractor feature_selector
        classifier = (calls, res)" by (cases "predict_image_class cv img_rgb feature_extractor
          feature_selector classifier")
    show ?thesis
    proof (cases res)
      case (Inl e)
      then show ?thesis using img rgb p by (simp add: try_body_def)
    next
      case d: (Inr d)
      show ?thesis
      proof (cases "py_max (dict_get d) (keys d)")
        case (Inl e)
        then show ?thesis using img rgb p d by (simp add: try_body_def)
      next
        case c: (Inr c)
        from dict_getitem_key [OF py_max_member [OF c]] obtain v where v: "dict_getitem d c = Inr v"
          by blast
        show ?thesis
        proof (cases "getitems d CLASS_NAMES")
          case (Inl e)
          then show ?thesis using img rgb p d c by (simp add: try_body_def)
        next
          case (Inr vals)
          then show ?thesis using img rgb p d c v by (simp add: try_body_def)
        qed
      qed
    qed
  qed
qed

lemma predict_image_class_calls:
  "fst (predict_image_class cv img feature_extractor feature_selector classifier)
     \<in> {[], [FeatureExtractorPredict], [FeatureExtractorPredict, FeatureSelectorTransform],
         [FeatureExtractorPredict, FeatureSelectorTransform, ClassifierPredictProba]}"
  by (simp add: predict_image_class_def split: sum.splits)

lemma handler_calls_once:
  "snd (handler cv feature_extractor feature_selector classifier uploaded_file)
     \<in> {[], [FeatureExtractorPredict], [FeatureExtractorPredict, FeatureSelectorTransform],
         [FeatureExtractorPredict, FeatureSelectorTransform, ClassifierPredictProba]}"
proof (cases uploaded_file)
  case None
  then show ?thesis by (simp add: handler_def)
next
  case (Some file_bytes)
  show ?thesis
  proof (cases "imdecode cv file_bytes")
    case (Inl e)
    then show ?thesis using Some by (simp add: handler_def try_body_def)
  next
    case img: (Inr img)
    show ?thesis
    proof (cases "cvtColor_BGR2RGB img")
      case (Inl e)
      then show ?thesis using Some img by (simp add: handler_def try_body_def)
    next
      case (Inr img_rgb)
      then show ?thesis
        using handler_calls [OF img Inr, where feature_extractor = feature_extractor and
            feature_selector = feature_selector and classifier = classifier]
          predict_image_class_calls [of cv img_rgb feature_extractor feature_selector classifier]
          Some
        by simp
    qed
  qed
qed

lemma handler_error_alone:
  assumes "Error msg \<in> set (fst (handler cv feature_extractor feature_selector classifier
             (Some file_bytes)))"
  shows "last (fst (handler cv feature_extractor feature_selector classifier (Some file_bytes)))
           = Error msg \<and>
         length (filter is_error (fst (handler cv feature_extractor feature_selector classifier
           (Some file_bytes)))) = 1 \<and>
         filter is_result (fst (handler cv feature_extractor feature_selector classifier
           (Some file_bytes))) = []"
  using assms try_body_outcomes [of cv feature_extractor feature_selector classifier file_bytes]
  by (auto simp: handler_def)

text \<open>
  C7. A failure in the decoder, the colour conversion, the preprocessing (the resize
  included) or a model call is caught by the one \<^verbatim>\<open>except\<close> of the handler: the page
  then shows the error message and nothing else, and the models called are those called
  before the failure. In every run, whatever fails, an error message on the page is the
  last thing shown, it is the only error message, and neither the chart nor the
  diagnosis is shown with it; each model is called at most once, in the fixed order, so
  nothing is retried and no other model is tried.
\<close>

theorem handler_failure_single_error:
  "(stage_fails cv feature_extractor feature_selector classifier file_bytes e calls \<longrightarrow>
      handler cv feature_extractor feature_selector classifier (Some file_bytes)
        = ([Error (''Error processing image: '' @ str e)], calls)) \<and>
   (Error msg \<in> set (fst (handler cv feature_extractor feature_selector classifier
        (Some file_bytes))) \<longrightarrow>
      last (fst (handler cv feature_extractor feature_selector classifier (Some file_bytes)))
        = Error msg \<and>
      length (filter is_error (fst (handler cv feature_extractor feature_selector classifier
        (Some file_bytes)))) = 1 \<and>
      filter is_result (fst (handler cv feature_extractor feature_selector classifier
        (Some file_bytes))) = []) \<and>
   snd (handler cv feature_extractor feature_selector classifier (Some file_bytes))
     \<in> {[], [FeatureExtractorPredict], [FeatureExtractorPredict, FeatureSelectorTransform],
         [FeatureExtractorPredict, FeatureSelectorTransform, ClassifierPredictProba]}"
proof (intro conjI impI)
  assume "stage_fails cv feature_extractor feature_selector classifier file_bytes e calls"
  then show "handler cv feature_extractor feature_selector classifier (Some file_bytes)
           = ([Error (''Error processing image: '' @ str e)], calls)"
    by (cases rule: stage_fails.cases)
      (simp_all add: handler_def try_body_def predict_image_class_def dict_def py_max_def keys_def)
next
  assume err: "Error msg \<in> set (fst (handler cv feature_extractor feature_selector classifier
        (Some file_bytes)))"
  note alone = handler_error_alone [where feature_extractor = feature_extractor and
      feature_selector = feature_selector and classifier = classifier, OF err]
  from alone show "last (fst (handler cv feature_extractor feature_selector classifier
      (Some file_bytes))) = Error msg" by (rule conjunct1)
  from alone show "length (filter is_error (fst (handler cv feature_extractor feature_selector
      classifier (Some file_bytes)))) = 1" by simp
  from alone show "filter is_result (fst (handler cv feature_extractor feature_selector classifier
      (Some file_bytes))) = []" by simp
next
  show "snd (handler cv feature_extractor feature_selector classifier (Some file_bytes))
     \<in> {[], [FeatureExtractorPredict], [FeatureExtractorPredict, FeatureSelectorTransform],
         [FeatureExtractorPredict, FeatureSelectorTransform, ClassifierPredictProba]}"
    by (rule handler_calls_once)
qed

theorem handler_failure_single_error_witness:
  "stage_fails cv_stub (failing_stub ''out of memory'') selector_stub (classifier_stub [1])
     [7, 7, 7] (ModelError ''out of memory'') [FeatureExtractorPredict] \<and>
   handler cv_stub (failing_stub ''out of memory'') selector_stub (classifier_stub [1]) (Some [7, 7, 7])
     = ([Error ''Error processing image: out of memory''], [FeatureExtractorPredict]) \<and>
   Error ''Error processing image: out of memory''
     \<in> set (fst (handler cv_stub (failing_stub ''out of memory'') selector_stub
          (classifier_stub [1]) (Some [7, 7, 7]))) \<and>
   filter is_result (fst (handler cv_stub (failing_stub ''out of memory'') selector_stub
          (classifier_stub [1]) (Some [7, 7, 7]))) = []"
proof -
  have h: "stage_fails cv_stub (failing_stub ''out of memory'') selector_stub (classifier_stub [1])
     [7, 7, 7] (ModelError ''out of memory'') [FeatureExtractorPredict]"
    by (rule stage_fails.extractor_fails [where img = "Some [[[7, 7, 7]]]"
          and img_rgb = "[[[7, 7, 7]]]" and x = black])
      (simp_all add: cv_stub_def imdecode_raw_def cvtColor_BGR2RGB_def flat_def
        preprocess_stub_grey [unfolded cv_stub_def] failing_stub_def)
  note inst = handler_failure_single_error [where cv = cv_stub and
      feature_extractor = "failing_stub ''out of memory''" and feature_selector = selector_stub and
      classifier = "classifier_stub [1]" and file_bytes = "[7, 7, 7]" and
      e = "ModelError ''out of memory''" and calls = "[FeatureExtractorPredict]" and
      msg = "''Error processing image: out of memory''"]
  from inst h have run: "handler cv_stub (failing_stub ''out of memory'') selector_stub
      (classifier_stub [1]) (Some [7, 7, 7])
      = ([Error ''Error processing image: out of memory''], [FeatureExtractorPredict])"
    by simp
  then have shown: "Error ''Error processing image: out of memory''
     \<in> set (fst (handler cv_stub (failing_stub ''out of memory'') selector_stub
          (classifier_stub [1]) (Some [7, 7, 7])))"
    by simp
  with inst have "filter is_result (fst (handler cv_stub (failing_stub ''out of memory'')
      selector_stub (classifier_stub [1]) (Some [7, 7, 7]))) = []"
    by blast
  with h run shown show ?thesis by blast
qed

section \<open>The order of the preprocessing steps\<close>

text \<open>
  \<open>preprocess_image\<close> is \<open>preprocess_image_f32\<close> at the exact reals.
\<close>

lemma exact_reals_simps:
  "f32_of_uint8 exact_reals = (\<lambda>v. real (unat v))"
  "f32_to_uint8 exact_reals = (\<lambda>x. word_of_int (trunc x))"
  "f32_const exact_reals = (\<lambda>c. c)"
  "f32_add exact_reals = (+)" "f32_sub exact_reals = (-)"
  "f32_mul exact_reals = (*)" "f32_div exact_reals = (/)"
  "f32_mean exact_reals = (\<lambda>xs. sum_list xs / real (length xs))"
  "f32_std exact_reals = (\<lambda>xs. sqrt (sum_list (map (\<lambda>x. (x - sum_list xs / real (length xs))\<^sup>2) xs)
                           / real (length xs)))"
  "f32_min exact_reals = (\<lambda>xs. Min (set xs))"
  "f32_ptp exact_reals = (\<lambda>xs. Max (set xs) - Min (set xs))"
  by (simp_all add: exact_reals_def)

lemma preprocess_image_exact:
  "preprocess_image cv image_in = preprocess_image_f32 exact_reals cv image_in"
proof (cases "resize cv image_in IMG_SIZE")
  case (Inl e)
  then show ?thesis by (simp add: preprocess_image_def preprocess_image_f32_def)
next
  case (Inr r)
  define img0 where "img0 = astype_float32 r"
  define d1 where "d1 = np_std img0 + 1 / 10 ^ 8"
  define img1 where "img1 = map3 (\<lambda>x. x / d1) (np_subtract img0 (np_mean img0))"
  define lo where "lo = Min (set (flat img1))"
  define d2 where "d2 = Max (set (flat img1)) - Min (set (flat img1)) + 1 / 10 ^ 8"
  define img2 where "img2 = map3 (\<lambda>x. x / d2) (np_subtract img1 lo)"
  define img where "img = astype_uint8 (np_multiply img2 255)"
  define rest where "rest = (case clahe_loop cv (createCLAHE 0.02 (8, 8)) img [0..<3] (zeros_like img) of
       Inl e \<Rightarrow> Inl e | Inr c \<Rightarrow> Inr (map3 (\<lambda>x. x / 255) (astype_float32 c)))"
  have div1: "np_divide (np_subtract img0 (np_mean img0)) (np_std img0 + 1 / 10 ^ 8) = Inr img1"
    unfolding img1_def d1_def by (rule np_divide_std)
  have std: "sqrt (sum_list (map (\<lambda>x. (x - np_mean img0)\<^sup>2) (flat img0))
      / real (length (flat img0))) = np_std img0"
    by (simp add: np_std_def np_mean_def [of "map3 f a" for f a] flat_map3)
  have mean: "sum_list (flat img0) / real (length (flat img0)) = np_mean img0"
    by (simp add: np_mean_def)
  have a0: "map3 (\<lambda>v. real (unat v)) r = img0"
    by (simp only: img0_def astype_float32_def)
  have a1: "map3 (\<lambda>x. x / (np_std img0 + 1 / 10 ^ 8)) (map3 (\<lambda>x. x - np_mean img0) img0) = img1"
    by (simp only: img1_def d1_def np_subtract_def)
  have a2: "map3 (\<lambda>x. x / (Max (set (flat img1)) - Min (set (flat img1)) + 1 / 10 ^ 8))
      (map3 (\<lambda>x. x - Min (set (flat img1))) img1) = img2"
    by (simp only: img2_def d2_def lo_def np_subtract_def)
  have a3: "map3 (\<lambda>x. word_of_int (trunc x)) (map3 (\<lambda>x. x * 255) img2) = img"
    by (simp only: img_def astype_uint8_def np_multiply_def)
  have a4: "map3 (\<lambda>x. x / 255) (map3 (\<lambda>v. real (unat v)) c) = map3 (\<lambda>x. x / 255) (astype_float32 c)"
    for c by (simp only: astype_float32_def)
  have right: "preprocess_image_f32 exact_reals cv image_in =
      (if flat img1 = [] then Inl (ValueError ''zero-size array to reduction operation'') else rest)"
    by (simp only: preprocess_image_f32_def Inr sum.case Let_def exact_reals_simps a0 mean std a1
        a2 a3 a4 rest_def cong: sum.case_cong)
  have left: "preprocess_image cv image_in =
      (if flat img1 = [] then Inl (ValueError ''zero-size array to reduction operation'') else rest)"
  proof (cases "flat img1 = []")
    case True
    then have "np_min img1 = Inl (ValueError ''zero-size array to reduction operation'')"
      by (simp add: np_min_def)
    then show ?thesis
      using True by (simp only: preprocess_image_def Inr sum.case Let_def img0_def [symmetric] div1
          if_True refl)
  next
    case False
    then have m: "np_min img1 = Inr lo" and p: "np_ptp img1 = Inr (Max (set (flat img1)) - Min (set (flat img1)))"
      by (simp_all add: np_min_def np_ptp_def lo_def)
    have div2: "np_divide (np_subtract img1 lo)
        (Max (set (flat img1)) - Min (set (flat img1)) + 1 / 10 ^ 8) = Inr img2"
      unfolding img2_def d2_def by (rule np_divide_pos [OF ptp_divisor_pos [OF p]])
    show ?thesis
      using False
      by (simp only: preprocess_image_def Inr sum.case Let_def img0_def [symmetric] div1 m p div2
          img_def [symmetric] np_divide_255 rest_def if_False cong: sum.case_cong)
  qed
  show ?thesis by (simp only: left right)
qed

text \<open>
  A run on an image that is not uniform: every pixel of the resized image is
  \<open>[0, 0, 255]\<close>. With the arithmetic that loses the \<open>1e-8\<close>, the brightest value is
  rescaled to exactly 1 and quantized to 255, as NumPy does; over the exact reals it stays
  below 1 and is quantized to 254.
\<close>

lemma concat_replicate_replicate: "concat (replicate h (replicate w x)) = replicate (h * w) x"
  by (induction h) (simp_all add: replicate_add)

lemma flat_pattern: "flat (replicate h (replicate w px)) = concat (replicate (h * w) px)"
  by (simp add: flat_def concat_replicate_replicate)

lemma map3_pattern: "map3 f (replicate h (replicate w px)) = replicate h (replicate w (map f px))"
  by (simp add: map3_def)

lemma sum_list_concat_replicate:
  "sum_list (concat (replicate k xs)) = real k * sum_list (xs :: real list)"
  by (induction k) (simp_all add: algebra_simps)

lemma length_concat_replicate: "length (concat (replicate k xs)) = k * length xs"
  by (induction k) simp_all

lemma set_concat_replicate: "0 < k \<Longrightarrow> set (concat (replicate k xs)) = set xs"
  by (induction k) auto

lemma map_concat_replicate: "map f (concat (replicate k xs)) = concat (replicate k (map f xs))"
  by (induction k) simp_all

lemma mean_pattern:
  assumes "0 < k" "xs \<noteq> []"
  shows "sum_list (concat (replicate k xs)) / real (length (concat (replicate k xs)))
           = sum_list xs / real (length (xs :: real list))"
  using assms by (simp add: sum_list_concat_replicate length_concat_replicate)

lemma absorbing_reals_simps:
  "f32_of_uint8 absorbing_reals = (\<lambda>v. real (unat v))"
  "f32_to_uint8 absorbing_reals = (\<lambda>x. word_of_int (trunc x))"
  "f32_const absorbing_reals = (\<lambda>c. c)"
  "f32_add absorbing_reals = absorbing_add" "f32_sub absorbing_reals = (-)"
  "f32_mul absorbing_reals = (*)" "f32_div absorbing_reals = (/)"
  "f32_mean absorbing_reals = (\<lambda>xs. sum_list xs / real (length xs))"
  "f32_std absorbing_reals = (\<lambda>xs. sqrt (sum_list (map (\<lambda>x. (x - sum_list xs / real (length xs))\<^sup>2) xs)
                           / real (length xs)))"
  "f32_min absorbing_reals = (\<lambda>xs. Min (set xs))"
  "f32_ptp absorbing_reals = (\<lambda>xs. Max (set xs) - Min (set xs))"
  by (simp_all add: absorbing_reals_def exact_reals_def)

lemma absorbed: "1 \<le> x \<Longrightarrow> absorbing_add x (1 / 10 ^ 8) = x"
  by (simp add: absorbing_add_def)

lemma clahe_loop_stub_pattern:
  "clahe_loop cv_stub cl (replicate h (replicate w [a, b, c])) [0..<3]
     (zeros_like (replicate h (replicate w [a, b, c]))) = Inr (replicate h (replicate w [a, b, c]))"
proof -
  let ?P = "replicate h (replicate w [a, b, c])"
  have px: "list_all (list_all (\<lambda>px. length px = 3)) ?P" by (simp add: list_all_iff)
  show ?thesis
    using clahe_loop_merge [OF px clahe_stub_keeps_shape, of cl]
    by (simp add: split3_ok [OF px] and_then_def cv_stub_def clahe_identity_def merge3_def)
qed


lemma preprocess_brightest:
  "preprocess_image_f32 absorbing_reals cv_stub [[[0, 0, 255]]]
     = Inr (replicate 224 (replicate 224 [0, 0, 1]))"
proof -
  define s where "s = sqrt 14450"
  have "sqrt 14450 \<le> 255" by (rule real_le_lsqrt) simp_all
  then have s: "1 \<le> s" "s \<le> 255" "0 < s" by (simp_all add: s_def)
  let ?R = "replicate 224 (replicate 224 [0, 0, 255 :: uint8])"
  let ?A = "replicate 224 (replicate 224 [0, 0, 255 :: real])"
  let ?B = "replicate 224 (replicate 224 [(- 85) / s, (- 85) / s, 170 / s])"
  let ?C = "replicate 224 (replicate 224 [0, 0, 1 :: real])"
  have r: "resize cv_stub [[[0, 0, 255]]] IMG_SIZE = Inr ?R" by (rule resize_stub)
  have img0: "map3 (\<lambda>v. real (unat v)) ?R = ?A" by (simp add: map3_pattern)
  have mean0: "sum_list (flat ?A) / real (length (flat ?A)) = 85"
    by (simp add: flat_pattern mean_pattern)
  have std0: "sqrt (sum_list (map (\<lambda>x. (x - 85)\<^sup>2) (flat ?A)) / real (length (flat ?A))) = s"
    by (simp add: flat_pattern map_concat_replicate sum_list_concat_replicate
        length_concat_replicate s_def)
  have d1: "absorbing_add s (1 / 10 ^ 8) = s" by (rule absorbed [OF s(1)])
  have img1: "map3 (\<lambda>x. x / s) (map3 (\<lambda>x. x - 85) ?A) = ?B" by (simp add: map3_pattern)
  have ne: "(flat ?B = []) = False" by (simp add: flat_pattern)
  have "(- 85) / s \<le> 170 / s" using s(3) by (simp add: field_simps)
  then have mn: "Min (set (flat ?B)) = (- 85) / s" and mx: "Max (set (flat ?B)) = 170 / s"
    by (simp_all add: flat_pattern set_concat_replicate min_def max_def)
  have range: "170 / s - (- 85) / s = 255 / s" by (simp add: diff_divide_distrib [symmetric])
  have "1 \<le> 255 / s" using s(2,3) by (simp add: le_divide_eq)
  then have d2: "absorbing_add (255 / s) (1 / 10 ^ 8) = 255 / s" by (rule absorbed)
  have img2: "map3 (\<lambda>x. x / (255 / s)) (map3 (\<lambda>x. x - (- 85) / s) ?B) = ?C"
    using s(3) by (simp add: map3_pattern add_divide_distrib [symmetric])
  have img: "map3 (\<lambda>x. word_of_int (trunc x)) (map3 (\<lambda>x. x * 255) ?C) = ?R"
    by (simp add: map3_pattern trunc_def)
  have loop: "clahe_loop cv_stub (createCLAHE (2 / 10\<^sup>2) (8, 8)) ?R [0..<3] (zeros_like ?R) = Inr ?R"
    by (rule clahe_loop_stub_pattern)
  have out: "map3 (\<lambda>x. x / 255) ?A = ?C"
    by (simp add: map3_pattern)
  show ?thesis
    by (simp only: preprocess_image_f32_def r sum.case Let_def absorbing_reals_simps img0 mean0
        std0 d1 img1 ne if_False mn mx range d2 img2 img loop out)
qed

lemma preprocess_exact_brightest:
  "preprocess_image cv_stub [[[0, 0, 255]]] = Inr (replicate 224 (replicate 224 [0, 0, 254 / 255]))"
proof -
  define s where "s = sqrt 14450"
  define t where "t = s + 1 / 10 ^ 8"
  define p where "p = 255 / t"
  define u where "u = p + 1 / 10 ^ 8"
  have "sqrt 14450 \<le> 254" by (rule real_le_lsqrt) simp_all
  then have s: "1 \<le> s" "s \<le> 254" by (simp_all add: s_def)
  then have t: "0 < t" "t \<le> 255" by (simp_all add: t_def)
  then have p: "1 \<le> p" by (simp add: p_def le_divide_eq)
  then have u: "0 < u" "p < u" by (simp_all add: u_def)
  let ?R = "replicate 224 (replicate 224 [0, 0, 255 :: uint8])"
  let ?A = "replicate 224 (replicate 224 [0, 0, 255 :: real])"
  let ?B = "replicate 224 (replicate 224 [(- 85) / t, (- 85) / t, 170 / t])"
  let ?C = "replicate 224 (replicate 224 [0, 0, p / u])"
  let ?Q = "replicate 224 (replicate 224 [0, 0, 254 :: uint8])"
  have r: "resize cv_stub [[[0, 0, 255]]] IMG_SIZE = Inr ?R" by (rule resize_stub)
  have img0: "map3 (\<lambda>v. real (unat v)) ?R = ?A" by (simp add: map3_pattern)
  have mean0: "sum_list (flat ?A) / real (length (flat ?A)) = 85"
    by (simp add: flat_pattern mean_pattern)
  have std0: "sqrt (sum_list (map (\<lambda>x. (x - 85)\<^sup>2) (flat ?A)) / real (length (flat ?A))) = s"
    by (simp add: flat_pattern map_concat_replicate sum_list_concat_replicate
        length_concat_replicate s_def)
  have d1: "s + 1 / 10 ^ 8 = t" by (simp only: t_def)
  have img1: "map3 (\<lambda>x. x / t) (map3 (\<lambda>x. x - 85) ?A) = ?B" by (simp add: map3_pattern)
  have ne: "(flat ?B = []) = False" by (simp add: flat_pattern)
  have "(- 85) / t \<le> 170 / t" using t(1) by (simp add: field_simps)
  then have mn: "Min (set (flat ?B)) = (- 85) / t" and mx: "Max (set (flat ?B)) = 170 / t"
    by (simp_all add: flat_pattern set_concat_replicate min_def max_def)
  have range: "170 / t - (- 85) / t = p" by (simp add: p_def diff_divide_distrib [symmetric])
  have d2: "p + 1 / 10 ^ 8 = u" by (simp only: u_def)
  have img2: "map3 (\<lambda>x. x / u) (map3 (\<lambda>x. x - (- 85) / t) ?B) = ?C"
    by (simp add: map3_pattern p_def add_divide_distrib [symmetric])
  have "p / u * 255 < 255" using u by (simp add: field_simps)
  moreover have "254 \<le> p / u * 255"
  proof -
    have "254 * u \<le> 255 * p" using p by (simp add: u_def)
    then show ?thesis using u(1) by (simp add: field_simps)
  qed
  ultimately have "\<lfloor>p / u * 255\<rfloor> = 254" by (simp add: floor_eq_iff)
  moreover have "0 \<le> p / u * 255" using p u(1) by simp
  ultimately have "trunc (p / u * 255) = 254" by (simp add: trunc_def)
  then have img: "map3 (\<lambda>x. word_of_int (trunc x)) (map3 (\<lambda>x. x * 255) ?C) = ?Q"
    by (simp add: map3_pattern trunc_def)
  have loop: "clahe_loop cv_stub (createCLAHE (2 / 10\<^sup>2) (8, 8)) ?Q [0..<3] (zeros_like ?Q) = Inr ?Q"
    by (rule clahe_loop_stub_pattern)
  have out: "map3 (\<lambda>x. x / 255) (map3 (\<lambda>v. real (unat v)) ?Q)
      = replicate 224 (replicate 224 [0, 0, 254 / 255])"
    by (simp add: map3_pattern)
  have "preprocess_image_f32 exact_reals cv_stub [[[0, 0, 255]]]
      = Inr (replicate 224 (replicate 224 [0, 0, 254 / 255]))"
    by (simp only: preprocess_image_f32_def r sum.case Let_def exact_reals_simps img0 mean0
        std0 d1 img1 ne if_False mn mx range d2 img2 img loop out)
  then show ?thesis by (simp only: preprocess_image_exact)
qed

text \<open>
  C2. For every input image and every float arithmetic, the preprocessing is the chain of
  the seven steps of the design, in their order: resize to 224 by 224; convert to float;
  subtract the global mean and divide by the global standard deviation plus \<open>1e-8\<close>;
  subtract the global minimum and divide by the global range plus \<open>1e-8\<close>; multiply by
  255 and cast to 8 bits; equalize each of the three channels on its own, with clip limit
  0.02 and an 8 by 8 grid; convert to float and divide by 255. The two sides agree on
  failures as well. The library calls are asked to keep shapes: a successful resize
  returns a 224 by 224 three-channel image and the equalizer returns a plane of the shape
  it was given.
\<close>

theorem preprocess_image_follows_steps:
  assumes target: "resize_returns_target cv image_in" and keeps: "clahe_keeps_shape cv"
  shows "preprocess_image_f32 np cv image_in = preprocess_steps np cv image_in"
proof (cases "resize cv image_in IMG_SIZE")
  case (Inl e)
  then show ?thesis
    by (simp add: preprocess_image_f32_def preprocess_steps_def step_resize_def and_then_def
        IMG_SIZE_def)
next
  case (Inr r)
  with target have shape: "has_shape 224 224 3 r"
    by (simp add: resize_returns_target_def)
  from Inr have r: "resize cv image_in (224, 224) = Inr r" by (simp add: IMG_SIZE_def)
  define img0 where "img0 = map3 (f32_of_uint8 np) r"
  define img1 where "img1 = map3 (\<lambda>x. f32_div np (f32_sub np x (f32_mean np (flat img0)))
      (f32_add np (f32_std np (flat img0)) (f32_const np (1 / 10 ^ 8)))) img0"
  define img2 where "img2 = map3 (\<lambda>x. f32_div np (f32_sub np x (f32_min np (flat img1)))
      (f32_add np (f32_ptp np (flat img1)) (f32_const np (1 / 10 ^ 8)))) img1"
  define img where "img = map3 (\<lambda>x. f32_to_uint8 np (f32_mul np x (f32_const np 255))) img2"
  have "has_shape 224 224 3 img"
    using shape by (simp add: img_def img2_def img1_def img0_def has_shape_map3)
  then have px: "list_all (list_all (\<lambda>px. length px = 3)) img" by (rule has_shape_pixels)
  have ne: "flat img1 \<noteq> []"
    using shape has_shape_flat [of 224 224 3 img1]
    by (simp add: img1_def img0_def has_shape_map3)
  have e1: "map3 (\<lambda>x. f32_div np x (f32_add np (f32_std np (flat img0)) (f32_const np (1 / 10 ^ 8))))
      (map3 (\<lambda>x. f32_sub np x (f32_mean np (flat img0))) img0) = img1"
    by (simp only: img1_def map3_map3 comp_def)
  have e2: "map3 (\<lambda>x. f32_div np x (f32_add np (f32_ptp np (flat img1)) (f32_const np (1 / 10 ^ 8))))
      (map3 (\<lambda>x. f32_sub np x (f32_min np (flat img1))) img1) = img2"
    by (simp only: img2_def map3_map3 comp_def)
  have e3: "map3 (f32_to_uint8 np) (map3 (\<lambda>x. f32_mul np x (f32_const np 255)) img2) = img"
    by (simp only: img_def map3_map3 comp_def)
  have e4: "map3 (\<lambda>x. f32_div np x (f32_const np 255)) (map3 (f32_of_uint8 np) c)
      = map3 (\<lambda>v. f32_div np (f32_of_uint8 np v) (f32_const np 255)) c" for c
    by (simp only: map3_map3 comp_def)
  have code: "preprocess_image_f32 np cv image_in =
      (case clahe_loop cv (createCLAHE 0.02 (8, 8)) img [0..<3] (zeros_like img) of
         Inl e \<Rightarrow> Inl e
       | Inr c \<Rightarrow> Inr (map3 (\<lambda>v. f32_div np (f32_of_uint8 np v) (f32_const np 255)) c))"
    by (simp only: preprocess_image_f32_def Let_def Inr sum.case img0_def [symmetric] e1 ne
        if_False e2 e3 e4 cong: sum.case_cong)
  have steps: "preprocess_steps np cv image_in =
      (case step_equalize cv img of
         Inl e \<Rightarrow> Inl e
       | Inr c \<Rightarrow> Inr (map3 (\<lambda>v. f32_div np (f32_of_uint8 np v) (f32_const np 255)) c))"
    by (simp only: preprocess_steps_def step_resize_def r and_then_def sum.case step_to_float_def
        step_standardize_def Let_def img0_def [symmetric] img1_def [symmetric] step_rescale_def
        ne if_False img2_def [symmetric] step_quantize_def img_def [symmetric]
        step_unit_range_def cong: sum.case_cong)
  show ?thesis
    by (simp only: code steps step_equalize_eq [OF px keeps])
qed

theorem preprocess_image_follows_steps_witness:
  "resize_returns_target cv_stub [[[0, 0, 255]]] \<and> clahe_keeps_shape cv_stub \<and>
   preprocess_image_f32 absorbing_reals cv_stub [[[0, 0, 255]]]
     = preprocess_steps absorbing_reals cv_stub [[[0, 0, 255]]] \<and>
   preprocess_steps absorbing_reals cv_stub [[[0, 0, 255]]]
     = Inr (replicate 224 (replicate 224 [0, 0, 1]))"
proof -
  note same = preprocess_image_follows_steps [OF resize_stub_target [of 0 0 255]
      clahe_stub_keeps_shape, where np = absorbing_reals]
  from same preprocess_brightest
  have "preprocess_steps absorbing_reals cv_stub [[[0, 0, 255]]]
      = Inr (replicate 224 (replicate 224 [0, 0, 1]))"
    by (rule subst)
  with same resize_stub_target [of 0 0 255] clahe_stub_keeps_shape show ?thesis by blast
qed

end
